theory Spec2Isabelle
  imports Complex_Main
begin

section \<open>Python values, exceptions and the two toolkits\<close>

text \<open>
  The module \<^verbatim>\<open>cmiles/utils.py\<close> is glue code over RDKit and OpenEye. The model keeps
  the module's own control flow (type dispatch, table lookups, loops, early raises) and
  takes the chemistry of the toolkits (sanitization, stereo perception, the parsers,
  Omega) as parameters. Names of the source that start with an underscore lose it.
\<close>

datatype dict_key = StrKey string | IntKey int

text \<open>Every exception the module raises or lets escape is a value; \<open>ToolkitError\<close> stands
  for an exception raised inside a toolkit call (RDKit reports a refused \<^verbatim>\<open>AddBond\<close> or a
  conformer of the wrong size that way).\<close>

datatype py_error =
    RuntimeError string
  | KeyError dict_key
  | ValueError
  | IndexError
  | Warning string
  | NameError string
  | UnboundLocalError string
  | AttributeError
  | TypeError string
  | ToolkitError

type_synonym Point3D = "real \<times> real \<times> real"

type_synonym Conformer = "Point3D list"

datatype BondType = SINGLE | DOUBLE | TRIPLE | AROMATIC

record Atom =
  atomic_num :: nat
  atom_map_num :: nat

text \<open>An RDKit molecule: atoms and bonds in index order, its conformers (the conformer
  id is the position in the list) and its string properties.\<close>

record rdmol =
  atoms :: "Atom list"
  bonds :: "(int \<times> int \<times> BondType) list"
  conformers :: "Conformer list"
  props :: "string \<rightharpoonup> string"

record oeatom =
  oe_atomic_num :: nat
  map_idx :: nat

record oemol =
  oe_atoms :: "oeatom list"
  oe_confs :: "Conformer list"

text \<open>A QCSchema molecule as \<^verbatim>\<open>mol_from_json\<close> reads it: a dictionary with the keys
  \<^verbatim>\<open>symbols\<close>, \<^verbatim>\<open>connectivity\<close> and \<^verbatim>\<open>geometry\<close>, each of which may be absent. A
  connectivity entry is a Python list of integers; the geometry is a flat list of
  numbers. Floats are modelled as reals: rounding of a product is not modelled.\<close>

record json_mol =
  symbols :: "string list option"
  connectivity :: "int list list option"
  geometry :: "real list option"

text \<open>The Python values the module's functions are called with or return. \<open>PyOther\<close> is
  an object of no type the module tests for, without the toolkits' methods.\<close>

datatype py_value =
    PyDict json_mol
  | PyStr string
  | PyRDMol rdmol
  | PyOEMol oemol
  | PyNone
  | PyOther

datatype py_atom = RDAtom Atom | OEAtom oeatom

text \<open>What \<^verbatim>\<open>from rdkit import Chem\<close> binds, as far as the module calls into it and the
  result is chemistry: \<open>None\<close> from \<open>SanitizeMol\<close> is a raised exception, \<open>None\<close> from
  a parser is Python's \<^verbatim>\<open>None\<close>. \<open>AddBond_accepts\<close> is the argument check of
  \<^verbatim>\<open>RWMol.AddBond\<close>.\<close>

record Chem_module =
  SanitizeMol :: "rdmol \<Rightarrow> rdmol option"
  AddBond_accepts :: "rdmol \<Rightarrow> int \<Rightarrow> int \<Rightarrow> bool"
  AssignStereochemistryFrom3D :: "rdmol \<Rightarrow> nat \<Rightarrow> py_error + rdmol"
  MolFromSmiles :: "string \<Rightarrow> rdmol option"
  MolFromPDBFile :: "string \<Rightarrow> py_error + rdmol option"
  MolFromMol2File :: "string \<Rightarrow> py_error + rdmol option"
  MolFromTPLFile :: "string \<Rightarrow> py_error + rdmol option"
  MolToSmiles :: "rdmol \<Rightarrow> string"

text \<open>The state of an \<^verbatim>\<open>OEOmega\<close> object: the options the setters record.\<close>

record OEOmega =
  MaxConfs :: "int option"
  IncludeInput :: bool
  CanonOrder :: bool
  SampleHydrogens :: bool
  EnergyWindow :: real
  RMSThreshold :: real
  StrictStereo :: bool
  StrictAtomTypes :: bool

text \<open>What \<^verbatim>\<open>from openeye import oechem\<close> (and \<^verbatim>\<open>oeomega\<close>) binds. \<open>oemolistream_open\<close>
  is \<open>None\<close> when the stream cannot open the file and the molecules of the file
  otherwise; \<open>omega_call\<close> is \<^verbatim>\<open>omega(mol)\<close>: the molecule as Omega leaves it and the
  status.\<close>

record oechem_module =
  OEMol_empty :: oemol
  OEParseSmiles :: "oemol \<Rightarrow> string \<Rightarrow> oemol"
  oemol_truth :: "oemol \<Rightarrow> bool"
  oemolistream_open :: "string \<Rightarrow> oemol list option"
  OEMolToSmiles :: "oemol \<Rightarrow> string"
  OESmilesToMol :: "oemol \<Rightarrow> string \<Rightarrow> oemol"
  OEOmega_new :: OEOmega
  omega_call :: "OEOmega \<Rightarrow> oemol \<Rightarrow> oemol \<times> int"

text \<open>The module's globals after its two guarded imports: a toolkit is bound exactly
  when its import succeeded, and \<open>has_rdkit\<close>, \<open>has_openeye\<close> say which.\<close>

record py_env =
  Chem :: "Chem_module option"
  oechem :: "oechem_module option"

definition has_rdkit :: "py_env \<Rightarrow> bool" where
  "has_rdkit env = (Chem env \<noteq> None)"

definition has_openeye :: "py_env \<Rightarrow> bool" where
  "has_openeye env = (oechem env \<noteq> None)"

section \<open>The tables and constants of the module\<close>

definition symbols_table :: "(string \<times> nat) list" where
  "symbols_table =
    [(''H'',1),(''He'',2),
     (''Li'',3),(''Be'',4),(''B'',5),(''C'',6),(''N'',7),(''O'',8),(''F'',9),(''Ne'',10),
     (''Na'',11),(''Mg'',12),(''Al'',13),(''Si'',14),(''P'',15),(''S'',16),(''Cl'',17),(''Ar'',18),
     (''K'',19),(''Ca'',20),(''Sc'',21),(''Ti'',22),(''V'',23),(''Cr'',24),(''Mn'',25),(''Fe'',26),
     (''Co'',27),(''Ni'',28),(''Cu'',29),(''Zn'',30),(''Ga'',31),(''Ge'',32),(''As'',33),(''Se'',34),
     (''Br'',35),(''Kr'',36),
     (''Rb'',37),(''Sr'',38),(''Y'',39),(''Zr'',40),(''Nb'',41),(''Mo'',42),(''Tc'',43),(''Ru'',44),
     (''Rh'',45),(''Pd'',46),(''Ag'',47),(''Cd'',48),(''In'',49),(''Sn'',50),(''Sb'',51),(''Te'',52),
     (''I'',53),(''Xe'',54),
     (''Cs'',55),(''Ba'',56),(''La'',57),(''Ce'',58),(''Pr'',59),(''Nd'',60),(''Pm'',61),(''Sm'',62),
     (''Eu'',63),(''Gd'',64),(''Tb'',65),(''Dy'',66),(''Ho'',67),(''Er'',68),(''Tm'',69),(''Yb'',70),
     (''Lu'',71),(''Hf'',72),(''Ta'',73),(''W'',74),(''Re'',75),(''Os'',76),(''Ir'',77),(''Pt'',78),
     (''Au'',79),(''Hg'',80),(''Tl'',81),(''Pb'',82),(''Bi'',83),(''Po'',84),(''At'',85),(''Rn'',86),
     (''Fr'',87),(''Ra'',88),(''Ac'',89),(''Th'',90),(''Pa'',91),(''U'',92),(''Np'',93),(''Pu'',94),
     (''Am'',95),(''Cm'',96),(''Bk'',97),(''Cf'',98),(''Es'',99),(''Fm'',100),(''Md'',101),
     (''No'',102),(''Lr'',103),(''Rf'',104),(''Db'',105),(''Sg'',106),(''Bh'',107),(''Hs'',108),
     (''Mt'',109)]"

definition BOHR_2_ANGSTROM :: real where
  "BOHR_2_ANGSTROM = 0.529177210"

definition BO_DISPATCH_TABLE :: "(int \<times> BondType) list" where
  "BO_DISPATCH_TABLE = [(1, SINGLE), (2, DOUBLE), (3, TRIPLE)]"

section \<open>The RDKit graph-building calls\<close>

text \<open>\<^verbatim>\<open>Chem.RWMol(Chem.Mol())\<close>: no atoms, bonds, conformers or properties.\<close>

definition RWMol_new :: rdmol where
  "RWMol_new = \<lparr>atoms = [], bonds = [], conformers = [], props = Map.empty\<rparr>"

text \<open>\<^verbatim>\<open>Chem.Atom(z)\<close>: an atom of atomic number \<open>z\<close> with no atom map.\<close>

definition Atom_new :: "nat \<Rightarrow> Atom" where
  "Atom_new z = \<lparr>atomic_num = z, atom_map_num = 0\<rparr>"

text \<open>\<^verbatim>\<open>em.AddAtom(a)\<close> appends the atom and returns its index.\<close>

definition AddAtom :: "rdmol \<Rightarrow> Atom \<Rightarrow> rdmol \<times> nat" where
  "AddAtom em a = (em\<lparr>atoms := atoms em @ [a]\<rparr>, length (atoms em))"

text \<open>\<^verbatim>\<open>em.AddBond(a, b, t)\<close> raises when the toolkit refuses the arguments and appends
  one bond otherwise.\<close>

definition AddBond :: "Chem_module \<Rightarrow> rdmol \<Rightarrow> int \<Rightarrow> int \<Rightarrow> BondType \<Rightarrow> py_error + rdmol" where
  "AddBond tk em a b t =
     (if AddBond_accepts tk em a b then Inr (em\<lparr>bonds := bonds em @ [(a, b, t)]\<rparr>)
      else Inl ToolkitError)"

text \<open>\<^verbatim>\<open>Chem.Conformer(n)\<close>: \<open>n\<close> positions at the origin.\<close>

definition Conformer_new :: "nat \<Rightarrow> Conformer" where
  "Conformer_new n = replicate n (0, 0, 0)"

text \<open>\<^verbatim>\<open>conformer.SetAtomPosition(i, p)\<close> grows the conformer when \<open>i\<close> is past its end.\<close>

definition SetAtomPosition :: "Conformer \<Rightarrow> nat \<Rightarrow> Point3D \<Rightarrow> Conformer" where
  "SetAtomPosition c i p =
     (if i < length c then c[i := p]
      else c @ replicate (i - length c) (0, 0, 0) @ [p])"

text \<open>\<^verbatim>\<open>molecule.AddConformer(conformer, assignId=True)\<close> refuses a conformer whose size is
  not the number of atoms; the new conformer's id is the number of conformers before.\<close>

definition AddConformer :: "rdmol \<Rightarrow> Conformer \<Rightarrow> py_error + rdmol \<times> nat" where
  "AddConformer m c =
     (if length c = length (atoms m)
      then Inr (m\<lparr>conformers := conformers m @ [c]\<rparr>, length (conformers m))
      else Inl ToolkitError)"

definition SetProp :: "rdmol \<Rightarrow> string \<Rightarrow> string \<Rightarrow> rdmol" where
  "SetProp m k v = m\<lparr>props := (props m)(k \<mapsto> v)\<rparr>"

section \<open>\<^verbatim>\<open>mol_from_json\<close>\<close>

text \<open>\<^verbatim>\<open>np.array(g, dtype=float).reshape(int(len(g)/3), 3)\<close>: numpy refuses the shape
  unless it holds exactly \<open>len(g)\<close> entries.\<close>

definition np_reshape3 :: "real list \<Rightarrow> py_error + Point3D list" where
  "np_reshape3 g =
     (let rows = length g div 3 in
      if rows * 3 = length g
      then Inr (map (\<lambda>k. (g ! (3 * k), g ! (3 * k + 1), g ! (3 * k + 2))) [0..<rows])
      else Inl ValueError)"

definition scale_rows :: "Point3D list \<Rightarrow> real \<Rightarrow> Point3D list" where
  "scale_rows rows c = map (\<lambda>(x, y, z). (x * c, y * c, z * c)) rows"

text \<open>The loop over \<^verbatim>\<open>enumerate(symbols)\<close>, from index \<open>i\<close> on. \<open>geom\<close> is \<open>None\<close> when
  \<^verbatim>\<open>has_geometry\<close> is false; the conformer is then never read.\<close>

fun add_atoms ::
  "Point3D list option \<Rightarrow> nat \<Rightarrow> string list \<Rightarrow> rdmol \<Rightarrow> Conformer \<Rightarrow> py_error + rdmol \<times> Conformer"
where
  "add_atoms geom i [] em conformer = Inr (em, conformer)"
| "add_atoms geom i (s # ss) em conformer =
     (case map_of symbols_table s of
        None \<Rightarrow> Inl (KeyError (StrKey s))
      | Some z \<Rightarrow>
          (case AddAtom em (Atom_new z) of (em', atom) \<Rightarrow>
             (case geom of
                None \<Rightarrow> add_atoms geom (i + 1) ss em' conformer
              | Some rows \<Rightarrow>
                  (if i < length rows
                   then add_atoms geom (i + 1) ss em' (SetAtomPosition conformer atom (rows ! i))
                   else Inl IndexError))))"

text \<open>The loop over \<^verbatim>\<open>connectivity\<close>. \<^verbatim>\<open>bond[-1]\<close> is the lookup key and is read first;
  \<^verbatim>\<open>bond[0]\<close> and \<^verbatim>\<open>bond[1]\<close> raise IndexError on an entry that is too short.\<close>

fun add_bonds :: "Chem_module \<Rightarrow> int list list \<Rightarrow> rdmol \<Rightarrow> py_error + rdmol" where
  "add_bonds tk [] em = Inr em"
| "add_bonds tk (bond # rest) em =
     (if bond = [] then Inl IndexError
      else (case map_of BO_DISPATCH_TABLE (last bond) of
        None \<Rightarrow> Inl (KeyError (IntKey (last bond)))
      | Some bond_type \<Rightarrow>
          (if length bond < 2 then Inl IndexError
           else (case AddBond tk em (bond ! 0) (bond ! 1) bond_type of
             Inl e \<Rightarrow> Inl e
           | Inr em' \<Rightarrow> add_bonds tk rest em'))))"

text \<open>Lines 326 to 347: the geometry array, the atoms and the bonds. The result is the
  graph handed to \<^verbatim>\<open>Chem.SanitizeMol\<close>, with the conformer filled on the way.\<close>

definition assemble :: "Chem_module \<Rightarrow> json_mol \<Rightarrow> py_error + rdmol \<times> Conformer" where
  "assemble tk inp =
     (case symbols inp of
        None \<Rightarrow> Inl (KeyError (StrKey ''symbols''))
      | Some syms \<Rightarrow>
     (case connectivity inp of
        None \<Rightarrow> Inl (KeyError (StrKey ''connectivity''))
      | Some conn \<Rightarrow>
     (case (case geometry inp of
              None \<Rightarrow> Inr None
            | Some g \<Rightarrow>
                (case np_reshape3 g of
                   Inl e \<Rightarrow> Inl e
                 | Inr rows \<Rightarrow> Inr (Some (scale_rows rows BOHR_2_ANGSTROM)))) of
        Inl e \<Rightarrow> Inl e
      | Inr geom \<Rightarrow>
     (case add_atoms geom 0 syms RWMol_new (Conformer_new (length syms)) of
        Inl e \<Rightarrow> Inl e
      | Inr (em, conformer) \<Rightarrow>
     (case add_bonds tk conn em of
        Inl e \<Rightarrow> Inl e
      | Inr em' \<Rightarrow> Inr (em', conformer))))))"

definition mol_from_json :: "py_env \<Rightarrow> json_mol \<Rightarrow> py_error + rdmol" where
  "mol_from_json env inp =
     (case Chem env of
        None \<Rightarrow> Inl (RuntimeError ''Must have RDKit installed when using the RDKit backend'')
      | Some tk \<Rightarrow>
     (case assemble tk inp of
        Inl e \<Rightarrow> Inl e
      | Inr (em, conformer) \<Rightarrow>
     (case SanitizeMol tk em of
        None \<Rightarrow> Inl (RuntimeError ''Could not sanitize molecule'')
      | Some molecule \<Rightarrow>
          (if geometry inp \<noteq> None
           then (case AddConformer molecule conformer of
                   Inl e \<Rightarrow> Inl e
                 | Inr (molecule1, initial_conformer_id) \<Rightarrow>
                     (case AssignStereochemistryFrom3D tk molecule1 initial_conformer_id of
                        Inl e \<Rightarrow> Inl e
                      | Inr molecule2 \<Rightarrow> Inr (SetProp molecule2 ''_json_geometry'' ''1'')))
           else Inr molecule))))"

section \<open>File extensions\<close>

text \<open>\<^verbatim>\<open>str.rfind\<close> for a single character: the highest index holding it, or \<open>-1\<close>.\<close>

fun rfind_from :: "string \<Rightarrow> char \<Rightarrow> int \<Rightarrow> int \<Rightarrow> int" where
  "rfind_from [] c i found = found"
| "rfind_from (x # xs) c i found = rfind_from xs c (i + 1) (if x = c then i else found)"

definition rfind :: "string \<Rightarrow> char \<Rightarrow> int" where
  "rfind p c = rfind_from p c 0 (- 1)"

text \<open>\<^verbatim>\<open>os.path.splitext\<close> of the POSIX flavour (separator \<^verbatim>\<open>/\<close>, no alternative
  separator), as the standard library's \<^verbatim>\<open>genericpath._splitext\<close> computes it: the loop
  skips the leading dots of the last path component.\<close>

function splitext_loop :: "string \<Rightarrow> nat \<Rightarrow> nat \<Rightarrow> string \<times> string" where
  "splitext_loop p filenameIndex dotIndex =
     (if filenameIndex < dotIndex
      then (if take 1 (drop filenameIndex p) \<noteq> ''.''
            then (take dotIndex p, drop dotIndex p)
            else splitext_loop p (filenameIndex + 1) dotIndex)
      else (p, []))"
  by pat_completeness auto
termination
  by (relation "measure (\<lambda>(p, filenameIndex, dotIndex). dotIndex - filenameIndex)") auto

definition splitext :: "string \<Rightarrow> string \<times> string" where
  "splitext p =
     (let sepIndex = rfind p CHR ''/'';
          dotIndex = rfind p CHR ''.''
      in if dotIndex > sepIndex
         then splitext_loop p (nat (sepIndex + 1)) (nat dotIndex)
         else (p, []))"

definition get_extension :: "string \<Rightarrow> string" where
  "get_extension filename =
     (case splitext filename of (base, extension) \<Rightarrow>
        if extension = ''.gz''
        then (let extension2 = snd (splitext base) in extension2 @ extension)
        else extension)"

section \<open>Loading a molecule\<close>

definition EXT_DISPATCH_TABLE ::
  "Chem_module \<Rightarrow> (string \<times> (string \<Rightarrow> py_error + rdmol option)) list" where
  "EXT_DISPATCH_TABLE tk =
     [(''.pdb'', MolFromPDBFile tk), (''.mol2'', MolFromMol2File tk), (''.tpl'', MolFromTPLFile tk)]"

text \<open>Lines 145 to 153 of \<^verbatim>\<open>_load_mol_rd\<close>. The local \<^verbatim>\<open>molecule\<close> is \<open>None\<close> while it is
  unbound; \<^verbatim>\<open>copy.deepcopy\<close> of a value is the value.\<close>

definition load_mol_rd_tail ::
  "py_env \<Rightarrow> Chem_module \<Rightarrow> py_value \<Rightarrow> rdmol option option \<Rightarrow> py_error + rdmol option" where
  "load_mol_rd_tail env tk inp_molecule molecule =
     (let molecule1 = (case inp_molecule of PyRDMol m \<Rightarrow> Some (Some m) | _ \<Rightarrow> molecule);
          molecule2 =
            (case oechem env of
               None \<Rightarrow> molecule1
             | Some oe \<Rightarrow>
                 (case inp_molecule of
                    PyOEMol m \<Rightarrow> Some (MolFromSmiles tk (OEMolToSmiles oe m))
                  | _ \<Rightarrow> molecule1))
      in case molecule2 of
           None \<Rightarrow> Inl (UnboundLocalError ''molecule'')
         | Some r \<Rightarrow> Inr r)"

text \<open>\<^verbatim>\<open>_load_mol_rd\<close>. The dispatch table is built from \<^verbatim>\<open>Chem\<close> first, so the call
  needs RDKit. The \<^verbatim>\<open>try\<close> covers the lookup and the parser's call: a KeyError of
  either is raised again with the module's message.\<close>

definition load_mol_rd :: "py_env \<Rightarrow> py_value \<Rightarrow> py_error + rdmol option" where
  "load_mol_rd env inp_molecule =
     (case Chem env of
        None \<Rightarrow> Inl (NameError ''Chem'')
      | Some tk \<Rightarrow>
          (case inp_molecule of
             PyStr s \<Rightarrow>
               (let ext = get_extension s in
                if ext = []
                then (case MolFromSmiles tk s of
                        None \<Rightarrow> Inl (Warning ''Could not parse molecule'')
                      | Some molecule \<Rightarrow> Inr (Some molecule))
                else (case map_of (EXT_DISPATCH_TABLE tk) ext of
                        None \<Rightarrow> Inl (KeyError (StrKey (''Could not parse '' @ ext)))
                      | Some parser \<Rightarrow>
                          (case parser s of
                             Inl (KeyError k) \<Rightarrow> Inl (KeyError (StrKey (''Could not parse '' @ ext)))
                           | Inl e \<Rightarrow> Inl e
                           | Inr molecule \<Rightarrow> load_mol_rd_tail env tk inp_molecule (Some molecule))))
           | _ \<Rightarrow> load_mol_rd_tail env tk inp_molecule None))"

text \<open>Lines 176 to 184 of \<^verbatim>\<open>_load_mol_oe\<close>.\<close>

definition load_mol_oe_tail ::
  "py_env \<Rightarrow> oechem_module \<Rightarrow> py_value \<Rightarrow> oemol \<Rightarrow> py_error + oemol" where
  "load_mol_oe_tail env oe inp_molecule molecule =
     (case inp_molecule of
        PyOEMol m \<Rightarrow> Inr m
      | PyRDMol m \<Rightarrow>
          (case Chem env of
             None \<Rightarrow> Inr molecule
           | Some tk \<Rightarrow> Inr (OESmilesToMol oe (OEMol_empty oe) (MolToSmiles tk m)))
      | _ \<Rightarrow> Inr molecule)"

text \<open>\<^verbatim>\<open>_load_mol_oe\<close>. The loop over the stream keeps the last molecule of the file.\<close>

definition load_mol_oe :: "py_env \<Rightarrow> py_value \<Rightarrow> py_error + oemol" where
  "load_mol_oe env inp_molecule =
     (case oechem env of
        None \<Rightarrow> Inl (NameError ''oechem'')
      | Some oe \<Rightarrow>
          (case inp_molecule of
             PyStr s \<Rightarrow>
               (let ext = get_extension s in
                if ext = []
                then (let molecule = OEParseSmiles oe (OEMol_empty oe) s in
                      if \<not> oemol_truth oe molecule
                      then Inl (Warning ''Could not parse molecule'')
                      else Inr molecule)
                else (case oemolistream_open oe s of
                        None \<Rightarrow> Inl (Warning ''OpenEye could not open File'')
                      | Some mols \<Rightarrow>
                          load_mol_oe_tail env oe inp_molecule
                            (foldl (\<lambda>molecule mol. mol) (OEMol_empty oe) mols)))
           | _ \<Rightarrow> load_mol_oe_tail env oe inp_molecule (OEMol_empty oe)))"

definition rd_result :: "rdmol option \<Rightarrow> py_value" where
  "rd_result r = (case r of None \<Rightarrow> PyNone | Some m \<Rightarrow> PyRDMol m)"

definition load_molecule :: "py_env \<Rightarrow> py_value \<Rightarrow> string \<Rightarrow> py_error + py_value" where
  "load_molecule env inp_molecule backend =
     (case inp_molecule of
        PyDict d \<Rightarrow> map_sum id PyRDMol (mol_from_json env d)
      | _ \<Rightarrow>
          if backend = ''rdkit''
          then (if \<not> has_rdkit env
                then Inl (RuntimeError
                       ''You need to have RDKit installed to use the RDKit backend'')
                else map_sum id rd_result (load_mol_rd env inp_molecule))
          else if backend = ''openeye''
          then (if \<not> has_openeye env
                then Inl (RuntimeError
                       ''You need to have OpenEye installed or an up-to-date license to use the openeye backend'')
                else map_sum id PyOEMol (load_mol_oe env inp_molecule))
          else Inl (RuntimeError ''You must have either RDKit or OpenEye installed''))"

section \<open>Atom maps\<close>

definition GetAtoms :: "py_value \<Rightarrow> py_error + py_atom list" where
  "GetAtoms molecule =
     (case molecule of
        PyRDMol m \<Rightarrow> Inr (map RDAtom (atoms m))
      | PyOEMol m \<Rightarrow> Inr (map OEAtom (oe_atoms m))
      | _ \<Rightarrow> Inl AttributeError)"

definition GetMapIdx :: "py_atom \<Rightarrow> py_error + nat" where
  "GetMapIdx a = (case a of OEAtom x \<Rightarrow> Inr (map_idx x) | RDAtom x \<Rightarrow> Inl AttributeError)"

definition GetAtomMapNum :: "py_atom \<Rightarrow> py_error + nat" where
  "GetAtomMapNum a = (case a of RDAtom x \<Rightarrow> Inr (atom_map_num x) | OEAtom x \<Rightarrow> Inl AttributeError)"

definition SetMapIdx :: "py_atom \<Rightarrow> nat \<Rightarrow> py_error + py_atom" where
  "SetMapIdx a n =
     (case a of OEAtom x \<Rightarrow> Inr (OEAtom (x\<lparr>map_idx := n\<rparr>)) | RDAtom x \<Rightarrow> Inl AttributeError)"

definition SetAtomMapNum :: "py_atom \<Rightarrow> nat \<Rightarrow> py_error + py_atom" where
  "SetAtomMapNum a n =
     (case a of RDAtom x \<Rightarrow> Inr (RDAtom (x\<lparr>atom_map_num := n\<rparr>)) | OEAtom x \<Rightarrow> Inl AttributeError)"

text \<open>The two \<^verbatim>\<open>isinstance\<close> tests that open \<^verbatim>\<open>is_mapped\<close> and \<^verbatim>\<open>remove_map\<close>. Both
  read the module globals \<^verbatim>\<open>Chem\<close> and \<^verbatim>\<open>oechem\<close> whatever the molecule is, so a
  toolkit whose import failed is a NameError here. The result is the local \<^verbatim>\<open>backend\<close>,
  \<open>None\<close> while unbound.\<close>

definition backend_of :: "py_env \<Rightarrow> py_value \<Rightarrow> py_error + string option" where
  "backend_of env molecule =
     (case Chem env of
        None \<Rightarrow> Inl (NameError ''Chem'')
      | Some tk \<Rightarrow>
          (let backend = (case molecule of PyRDMol m \<Rightarrow> Some ''rdkit'' | _ \<Rightarrow> None) in
           case oechem env of
             None \<Rightarrow> Inl (NameError ''oechem'')
           | Some oe \<Rightarrow>
               Inr (case molecule of PyOEMol m \<Rightarrow> Some ''openeye'' | _ \<Rightarrow> backend)))"

fun is_mapped_loop :: "string option \<Rightarrow> py_atom list \<Rightarrow> bool \<Rightarrow> py_error + bool" where
  "is_mapped_loop backend [] IS_MAPPED = Inr IS_MAPPED"
| "is_mapped_loop backend (atom # rest) IS_MAPPED =
     (case backend of
        None \<Rightarrow> Inl (UnboundLocalError ''backend'')
      | Some b \<Rightarrow>
          if b = ''openeye''
          then (case GetMapIdx atom of
                  Inl e \<Rightarrow> Inl e
                | Inr n \<Rightarrow> is_mapped_loop backend rest (if n = 0 then False else IS_MAPPED))
          else if b = ''rdkit''
          then (case GetAtomMapNum atom of
                  Inl e \<Rightarrow> Inl e
                | Inr n \<Rightarrow> is_mapped_loop backend rest (if n = 0 then False else IS_MAPPED))
          else Inl (TypeError ''Only openeye or rdkit are supported backends''))"

definition is_mapped :: "py_env \<Rightarrow> py_value \<Rightarrow> py_error + bool" where
  "is_mapped env molecule =
     (case backend_of env molecule of
        Inl e \<Rightarrow> Inl e
      | Inr backend \<Rightarrow>
          (case GetAtoms molecule of
             Inl e \<Rightarrow> Inl e
           | Inr ats \<Rightarrow> is_mapped_loop backend ats True))"

text \<open>The loop of \<^verbatim>\<open>remove_map\<close> writes into the atoms it walks over; the model returns
  them as the loop leaves them.\<close>

fun remove_map_loop :: "string option \<Rightarrow> py_atom list \<Rightarrow> py_error + py_atom list" where
  "remove_map_loop backend [] = Inr []"
| "remove_map_loop backend (a # rest) =
     (case backend of
        None \<Rightarrow> Inl (UnboundLocalError ''backend'')
      | Some b \<Rightarrow>
          (case (if b = ''openeye'' then SetMapIdx a 0
                 else if b = ''rdkit'' then SetAtomMapNum a 0
                 else Inl (TypeError ''Only openeye and rdkit are supported backends'')) of
             Inl e \<Rightarrow> Inl e
           | Inr a' \<Rightarrow>
               (case remove_map_loop backend rest of
                  Inl e \<Rightarrow> Inl e
                | Inr rest' \<Rightarrow> Inr (a' # rest'))))"

text \<open>The molecule with its atoms replaced by the ones the loop wrote.\<close>

definition with_atoms :: "py_value \<Rightarrow> py_atom list \<Rightarrow> py_value" where
  "with_atoms molecule ats =
     (case molecule of
        PyRDMol m \<Rightarrow> PyRDMol (m\<lparr>atoms := concat (map (\<lambda>a. case a of RDAtom x \<Rightarrow> [x] | OEAtom x \<Rightarrow> []) ats)\<rparr>)
      | PyOEMol m \<Rightarrow> PyOEMol (m\<lparr>oe_atoms := concat (map (\<lambda>a. case a of OEAtom x \<Rightarrow> [x] | RDAtom x \<Rightarrow> []) ats)\<rparr>)
      | _ \<Rightarrow> molecule)"

text \<open>\<^verbatim>\<open>remove_map\<close> returns nothing: the result is the molecule after the call.\<close>

definition remove_map :: "py_env \<Rightarrow> py_value \<Rightarrow> py_error + py_value" where
  "remove_map env molecule =
     (case backend_of env molecule of
        Inl e \<Rightarrow> Inl e
      | Inr backend \<Rightarrow>
          (case GetAtoms molecule of
             Inl e \<Rightarrow> Inl e
           | Inr ats \<Rightarrow>
               (case remove_map_loop backend ats of
                  Inl e \<Rightarrow> Inl e
                | Inr ats' \<Rightarrow> Inr (with_atoms molecule ats'))))"

section \<open>Conformer generation\<close>

text \<open>OpenEye molecules are mutable objects and \<^verbatim>\<open>generate_conformers\<close> may work on its
  argument itself, so the molecules live in a store: a reference is an index into it, and
  \<^verbatim>\<open>oechem.OEMol(molecule)\<close> allocates a new object holding a copy. A reference a caller
  holds is always below the length of the store.\<close>

type_synonym oe_store = "oemol list"

definition OEMol_copy :: "oe_store \<Rightarrow> nat \<Rightarrow> oe_store \<times> nat" where
  "OEMol_copy h r = (h @ [h ! r], length h)"

text \<open>The setters of lines 69 to 82, in the order of the source.\<close>

definition configure_omega ::
  "OEOmega \<Rightarrow> int option \<Rightarrow> bool \<Rightarrow> real \<Rightarrow> real \<Rightarrow> bool \<Rightarrow> bool \<Rightarrow> OEOmega" where
  "configure_omega omega max_confs strict_stereo ewindow rms_threshold strict_types canon_order =
     (let omega = omega\<lparr>MaxConfs := max_confs\<rparr>;
          omega = omega\<lparr>IncludeInput := True\<rparr>;
          omega = omega\<lparr>CanonOrder := canon_order\<rparr>;
          omega = omega\<lparr>SampleHydrogens := True\<rparr>;
          omega = omega\<lparr>EnergyWindow := ewindow\<rparr>;
          omega = omega\<lparr>RMSThreshold := rms_threshold\<rparr>;
          omega = omega\<lparr>StrictStereo := strict_stereo\<rparr>;
          omega = omega\<lparr>StrictAtomTypes := strict_types\<rparr>;
          omega = omega\<lparr>IncludeInput := False\<rparr>
      in if max_confs \<noteq> None then omega\<lparr>MaxConfs := max_confs\<rparr> else omega)"

text \<open>\<^verbatim>\<open>generate_conformers\<close>: the store after the call and what the call returns or raises.
  Omega writes its conformers into the object \<^verbatim>\<open>molcopy\<close> refers to, also when the status
  it returns is an error.\<close>

definition generate_conformers ::
  "py_env \<Rightarrow> oe_store \<Rightarrow> nat \<Rightarrow> int option \<Rightarrow> bool \<Rightarrow> real \<Rightarrow> real \<Rightarrow> bool \<Rightarrow> bool \<Rightarrow> bool
     \<Rightarrow> oe_store \<times> (py_error + nat)" where
  "generate_conformers env h molecule max_confs strict_stereo ewindow rms_threshold strict_types
     copy canon_order =
     (case oechem env of
        None \<Rightarrow> (h, Inl (Warning ''Could not import OpenEye. Need license for OpenEye!''))
      | Some oe \<Rightarrow>
          (case (if copy then OEMol_copy h molecule else (h, molecule)) of (h1, molcopy) \<Rightarrow>
             (let omega = configure_omega (OEOmega_new oe) max_confs strict_stereo ewindow
                            rms_threshold strict_types canon_order
              in case omega_call oe omega (h1 ! molcopy) of (m', status) \<Rightarrow>
                   (let h2 = h1[molcopy := m'] in
                    if status = 0
                    then (h2, Inl (RuntimeError ''omega returned error code 0''))
                    else (h2, Inr molcopy)))))"

section \<open>Shapes of file names\<close>

text \<open>The parts of a path that the statements about \<^verbatim>\<open>_get_extension\<close> speak of: a
  directory prefix (empty, or ending in the separator), the stem of the last component
  (no separator, and not dots only), an extension without its dot (no separator, no
  dot) and a run of dots, such as the one that starts the name of a hidden file.\<close>

definition dir_prefix :: "string \<Rightarrow> bool" where
  "dir_prefix d \<longleftrightarrow> d = [] \<or> last d = CHR ''/''"

definition name_part :: "string \<Rightarrow> bool" where
  "name_part n \<longleftrightarrow> CHR ''/'' \<notin> set n \<and> (\<exists>c \<in> set n. c \<noteq> CHR ''.'')"

definition ext_part :: "string \<Rightarrow> bool" where
  "ext_part x \<longleftrightarrow> CHR ''/'' \<notin> set x \<and> CHR ''.'' \<notin> set x"

definition dots_only :: "string \<Rightarrow> bool" where
  "dots_only s \<longleftrightarrow> set s \<subseteq> {CHR ''.''}"

section \<open>Sample toolkits and inputs\<close>

text \<open>A toolkit that accepts every graph it is given, with the argument check of
  \<^verbatim>\<open>AddBond\<close> that RDKit documents (atom indices in range, no self-bond), and one whose
  sanitization always fails. They serve as concrete instances of the theorems below.\<close>

definition simple_Chem :: Chem_module where
  "simple_Chem =
     \<lparr>SanitizeMol = Some,
      AddBond_accepts = (\<lambda>em a b. 0 \<le> a \<and> a < int (length (atoms em)) \<and> 0 \<le> b
                              \<and> b < int (length (atoms em)) \<and> a \<noteq> b),
      AssignStereochemistryFrom3D = (\<lambda>m cid. Inr m),
      MolFromSmiles = (\<lambda>s. if s = ''C'' then Some (RWMol_new\<lparr>atoms := [Atom_new 6]\<rparr>) else None),
      MolFromPDBFile = (\<lambda>f. Inr None),
      MolFromMol2File = (\<lambda>f. Inr None),
      MolFromTPLFile = (\<lambda>f. Inl (KeyError (StrKey f))),
      MolToSmiles = (\<lambda>m. ''C'')\<rparr>"

definition strict_Chem :: Chem_module where
  "strict_Chem = simple_Chem\<lparr>SanitizeMol := (\<lambda>m. None)\<rparr>"

definition rdkit_only :: py_env where
  "rdkit_only = \<lparr>Chem = Some simple_Chem, oechem = None\<rparr>"

definition h2_json :: json_mol where
  "h2_json = \<lparr>symbols = Some [''H'', ''H''], connectivity = Some [[0, 1, 1]],
              geometry = Some [0, 0, 0, 0, 0, 1.4]\<rparr>"

definition h2_graph :: rdmol where
  "h2_graph = \<lparr>atoms = [Atom_new 1, Atom_new 1], bonds = [(0, 1, SINGLE)],
               conformers = [], props = Map.empty\<rparr>"

definition h2_mol :: rdmol where
  "h2_mol = \<lparr>atoms = [Atom_new 1, Atom_new 1], bonds = [(0, 1, SINGLE)],
             conformers = [[(0, 0, 0), (0, 0, 1.4 * BOHR_2_ANGSTROM)]],
             props = [''_json_geometry'' \<mapsto> ''1'']\<rparr>"

definition h2_json_no_geometry :: json_mol where
  "h2_json_no_geometry = \<lparr>symbols = Some [''H'', ''H''], connectivity = Some [[0, 1, 1]],
                          geometry = None\<rparr>"

definition h2_json_bad_order :: json_mol where
  "h2_json_bad_order = h2_json\<lparr>connectivity := Some [[0, 1, 1], [0, 1, 4]]\<rparr>"

definition methane :: rdmol where
  "methane = RWMol_new\<lparr>atoms := [Atom_new 6]\<rparr>"

text \<open>An OpenEye toolkit whose Omega leaves one conformer and reports success, and a
  molecule with one mapped carbon.\<close>

definition simple_oechem :: oechem_module where
  "simple_oechem =
     \<lparr>OEMol_empty = \<lparr>oe_atoms = [], oe_confs = []\<rparr>,
      OEParseSmiles = (\<lambda>m s. m),
      oemol_truth = (\<lambda>m. oe_atoms m \<noteq> []),
      oemolistream_open = (\<lambda>f. None),
      OEMolToSmiles = (\<lambda>m. ''C''),
      OESmilesToMol = (\<lambda>m s. m),
      OEOmega_new = \<lparr>MaxConfs = None, IncludeInput = False, CanonOrder = True,
                     SampleHydrogens = False, EnergyWindow = 10, RMSThreshold = 0.5,
                     StrictStereo = True, StrictAtomTypes = True\<rparr>,
      omega_call = (\<lambda>omega m. (m\<lparr>oe_confs := [[(0, 0, 0)]]\<rparr>, 1))\<rparr>"

definition both_toolkits :: py_env where
  "both_toolkits = \<lparr>Chem = Some simple_Chem, oechem = Some simple_oechem\<rparr>"

definition carbon_oe :: oemol where
  "carbon_oe = \<lparr>oe_atoms = [\<lparr>oe_atomic_num = 6, map_idx = 1\<rparr>], oe_confs = []\<rparr>"




definition openeye_only :: py_env where
  "openeye_only = \<lparr>Chem = None, oechem = Some simple_oechem\<rparr>"

text \<open>The hydrogen molecule with a bond order 4 after a self-bond, which the toolkit
  refuses, and with a bond order 4 and a geometry of four numbers.\<close>

definition h2_json_self_bond :: json_mol where
  "h2_json_self_bond = h2_json\<lparr>connectivity := Some [[0, 0, 1], [0, 1, 4]]\<rparr>"

definition h2_json_bad_order_four :: json_mol where
  "h2_json_bad_order_four =
     h2_json\<lparr>connectivity := Some [[0, 1, 4]], geometry := Some [0, 0, 0, 0]\<rparr>"

section \<open>Evaluating the model\<close>

lemma map_of_symbols_H: "map_of symbols_table ''H'' = Some 1"
  by (simp add: symbols_table_def)

lemma np_reshape3_six:
  "np_reshape3 [a, b, c, d, e, f] = Inr [(a, b, c), (d, e, f)]"
proof -
  have "[0..<2] = [0, Suc 0]"
    by (simp add: upt_rec)
  then show ?thesis
    by (simp add: np_reshape3_def Let_def)
qed

lemma assemble_h2:
  "assemble tk h2_json =
     (if AddBond_accepts tk (RWMol_new\<lparr>atoms := [Atom_new 1, Atom_new 1]\<rparr>) 0 1
      then Inr (h2_graph, [(0, 0, 0), (0, 0, 1.4 * BOHR_2_ANGSTROM)])
      else Inl ToolkitError)"
  by (simp add: assemble_def h2_json_def h2_graph_def np_reshape3_six scale_rows_def
      map_of_symbols_H AddAtom_def RWMol_new_def Conformer_new_def SetAtomPosition_def
      BO_DISPATCH_TABLE_def AddBond_def numeral_2_eq_2)

lemma mol_from_json_h2: "mol_from_json rdkit_only h2_json = Inr h2_mol"
proof -
  have "assemble simple_Chem h2_json
          = Inr (h2_graph, [(0, 0, 0), (0, 0, 1.4 * BOHR_2_ANGSTROM)])"
    by (simp add: assemble_h2 simple_Chem_def RWMol_new_def)
  then show ?thesis
    by (simp add: mol_from_json_def rdkit_only_def simple_Chem_def AddConformer_def
        SetProp_def h2_mol_def h2_graph_def h2_json_def)
qed

lemma mol_from_json_h2_no_geometry:
  "mol_from_json rdkit_only h2_json_no_geometry = Inr h2_graph"
  by (simp add: mol_from_json_def rdkit_only_def assemble_def h2_json_no_geometry_def
      h2_graph_def map_of_symbols_H AddAtom_def RWMol_new_def Conformer_new_def
      BO_DISPATCH_TABLE_def AddBond_def simple_Chem_def)

lemma get_extension_C: "get_extension ''C'' = []"
  by (simp add: get_extension_def splitext_def rfind_def)

lemma load_mol_rd_C: "load_mol_rd rdkit_only (PyStr ''C'') = Inr (Some methane)"
  by (simp add: load_mol_rd_def rdkit_only_def get_extension_C simple_Chem_def methane_def)

section \<open>The two loops of \<^verbatim>\<open>mol_from_json\<close>\<close>

text \<open>What the loop over the symbols and the loop over the connectivity leave behind when
  they run to their end.\<close>

lemma add_atoms_graph:
  "add_atoms geom i ss em conformer = Inr (em', conformer') \<Longrightarrow>
     atoms em' = atoms em @ map (\<lambda>s. Atom_new (the (map_of symbols_table s))) ss \<and>
     bonds em' = bonds em \<and> conformers em' = conformers em \<and> props em' = props em \<and>
     (\<forall>s \<in> set ss. map_of symbols_table s \<noteq> None)"
proof (induction ss arbitrary: i em conformer)
  case Nil
  then show ?case by simp
next
  case (Cons s ss)
  from Cons.prems obtain z where z: "map_of symbols_table s = Some z"
    by (auto split: option.splits)
  show ?case
  proof (cases geom)
    case None
    with Cons.prems z
    have "add_atoms geom (i + 1) ss (em\<lparr>atoms := atoms em @ [Atom_new z]\<rparr>) conformer
            = Inr (em', conformer')"
      by (simp add: AddAtom_def)
    from Cons.IH [OF this] z show ?thesis by simp
  next
    case (Some rows)
    with Cons.prems z
    have "add_atoms geom (i + 1) ss (em\<lparr>atoms := atoms em @ [Atom_new z]\<rparr>)
            (SetAtomPosition conformer (length (atoms em)) (rows ! i)) = Inr (em', conformer')"
      by (simp add: AddAtom_def split: if_splits)
    from Cons.IH [OF this] z show ?thesis by simp
  qed
qed

lemma add_atoms_conformer:
  "add_atoms (Some rows) i ss em conformer = Inr (em', conformer') \<Longrightarrow>
   length (atoms em) + length ss \<le> length conformer \<Longrightarrow>
     (ss = [] \<or> i + length ss \<le> length rows) \<and>
     conformer' = take (length (atoms em)) conformer @ take (length ss) (drop i rows)
                    @ drop (length (atoms em) + length ss) conformer"
proof (induction ss arbitrary: i em conformer)
  case Nil
  then show ?case by simp
next
  case (Cons s ss)
  from Cons.prems obtain z where z: "map_of symbols_table s = Some z"
    by (auto split: option.splits)
  let ?k = "length (atoms em)"
  from Cons.prems z have i: "i < length rows"
    by (simp add: AddAtom_def split: if_splits)
  from Cons.prems have k: "?k < length conformer" by simp
  let ?c = "conformer[?k := rows ! i]"
  from Cons.prems z i k
  have step: "add_atoms (Some rows) (i + 1) ss (em\<lparr>atoms := atoms em @ [Atom_new z]\<rparr>) ?c
            = Inr (em', conformer')"
    by (simp add: AddAtom_def SetAtomPosition_def)
  have len: "length (atoms (em\<lparr>atoms := atoms em @ [Atom_new z]\<rparr>)) + length ss \<le> length ?c"
    using Cons.prems(2) by simp
  from Cons.IH [OF step len]
  have le: "ss = [] \<or> i + 1 + length ss \<le> length rows"
    and c': "conformer' = take (?k + 1) ?c @ take (length ss) (drop (i + 1) rows)
                           @ drop (?k + 1 + length ss) ?c"
    by simp_all
  have t: "take (?k + 1) ?c = take ?k conformer @ [rows ! i]"
    using k by (simp add: take_Suc_conv_app_nth)
  have d: "drop (?k + 1 + length ss) ?c = drop (?k + length (s # ss)) conformer"
    by simp
  have r: "take (length (s # ss)) (drop i rows) = rows ! i # take (length ss) (drop (i + 1) rows)"
    using i by (simp add: Cons_nth_drop_Suc [symmetric])
  from le i have "i + length (s # ss) \<le> length rows" by auto
  with c' t d r show ?case by simp
qed

lemma map_of_BO:
  "map_of BO_DISPATCH_TABLE k =
     (if k = 1 then Some SINGLE else if k = 2 then Some DOUBLE
      else if k = 3 then Some TRIPLE else None)"
  by (simp add: BO_DISPATCH_TABLE_def)

lemma add_bonds_graph:
  "add_bonds tk conn em = Inr em' \<Longrightarrow>
     atoms em' = atoms em \<and> conformers em' = conformers em \<and> props em' = props em \<and>
     bonds em' = bonds em @ map (\<lambda>bond. (bond ! 0, bond ! 1, the (map_of BO_DISPATCH_TABLE (last bond)))) conn \<and>
     (\<forall>bond \<in> set conn. 2 \<le> length bond \<and> map_of BO_DISPATCH_TABLE (last bond) \<noteq> None)"
proof (induction conn arbitrary: em)
  case Nil
  then show ?case by simp
next
  case (Cons bond rest)
  from Cons.prems obtain t where t: "map_of BO_DISPATCH_TABLE (last bond) = Some t"
    and len: "2 \<le> length bond"
    by (auto split: if_splits option.splits)
  from Cons.prems t len
  have "add_bonds tk rest (em\<lparr>bonds := bonds em @ [(bond ! 0, bond ! 1, t)]\<rparr>) = Inr em'"
    by (auto simp: AddBond_def split: if_splits sum.splits)
  from Cons.IH [OF this] t len show ?case by simp
qed

lemma add_bonds_append:
  "add_bonds tk (pre @ post) em =
     (case add_bonds tk pre em of Inl e \<Rightarrow> Inl e | Inr em1 \<Rightarrow> add_bonds tk post em1)"
  by (induction pre arbitrary: em) (auto split: option.splits sum.splits)

lemma add_bonds_bad_order:
  assumes "bond \<noteq> []" and "map_of BO_DISPATCH_TABLE (last bond) = None"
  shows "add_bonds tk (bond # post) em = Inl (KeyError (IntKey (last bond)))"
  using assms by simp



section \<open>The assembled graph\<close>


lemma np_reshape3_rows:
  "np_reshape3 g = Inr rows \<Longrightarrow>
     length g = 3 * length rows \<and>
     rows = map (\<lambda>k. (g ! (3 * k), g ! (3 * k + 1), g ! (3 * k + 2))) [0..<length rows]"
  by (auto simp: np_reshape3_def Let_def split: if_splits)



lemma scale_rows_nth:
  "k < length rows \<Longrightarrow>
     scale_rows rows c ! k = (fst (rows ! k) * c, fst (snd (rows ! k)) * c, snd (snd (rows ! k)) * c)"
  by (simp add: scale_rows_def split: prod.splits)

lemma length_scale_rows: "length (scale_rows rows c) = length rows"
  by (simp add: scale_rows_def)

lemma assemble_cases:
  assumes "assemble tk inp = Inr (em, conformer)"
  obtains syms conn geom em0 where
    "symbols inp = Some syms" "connectivity inp = Some conn"
    "(case geometry inp of None \<Rightarrow> geom = None
      | Some g \<Rightarrow> \<exists>rows. np_reshape3 g = Inr rows \<and> geom = Some (scale_rows rows BOHR_2_ANGSTROM))"
    "add_atoms geom 0 syms RWMol_new (Conformer_new (length syms)) = Inr (em0, conformer)"
    "add_bonds tk conn em0 = Inr em"
  using assms
  by (auto simp: assemble_def split: option.splits sum.splits prod.splits)

lemma assemble_graph:
  assumes "assemble tk inp = Inr (em, conformer)"
    and "symbols inp = Some syms" and "connectivity inp = Some conn"
  shows "atoms em = map (\<lambda>s. Atom_new (the (map_of symbols_table s))) syms"
    and "bonds em = map (\<lambda>bond. (bond ! 0, bond ! 1, the (map_of BO_DISPATCH_TABLE (last bond)))) conn"
    and "conformers em = []" and "props em = Map.empty"
    and "\<forall>s \<in> set syms. map_of symbols_table s \<noteq> None"
    and "\<forall>bond \<in> set conn. 2 \<le> length bond \<and> map_of BO_DISPATCH_TABLE (last bond) \<noteq> None"
proof -
  from assms(1) obtain syms' conn' geom em0 where
    a: "symbols inp = Some syms'" "connectivity inp = Some conn'"
       "add_atoms geom 0 syms' RWMol_new (Conformer_new (length syms')) = Inr (em0, conformer)"
       "add_bonds tk conn' em0 = Inr em"
    by (rule assemble_cases)
  with assms have b: "add_atoms geom 0 syms RWMol_new (Conformer_new (length syms)) = Inr (em0, conformer)"
    "add_bonds tk conn em0 = Inr em" by simp_all
  note A = add_atoms_graph [OF b(1)] and B = add_bonds_graph [OF b(2)]
  from A B show "atoms em = map (\<lambda>s. Atom_new (the (map_of symbols_table s))) syms"
    by (simp add: RWMol_new_def)
  from A B show "bonds em = map (\<lambda>bond. (bond ! 0, bond ! 1, the (map_of BO_DISPATCH_TABLE (last bond)))) conn"
    by (simp add: RWMol_new_def)
  from A B show "conformers em = []" by (simp add: RWMol_new_def)
  from A B show "props em = Map.empty" by (simp add: RWMol_new_def)
  from A show "\<forall>s \<in> set syms. map_of symbols_table s \<noteq> None" by simp
  from B show "\<forall>bond \<in> set conn. 2 \<le> length bond \<and> map_of BO_DISPATCH_TABLE (last bond) \<noteq> None"
    by simp
qed

lemma assemble_conformer:
  assumes "assemble tk inp = Inr (em, conformer)"
    and "symbols inp = Some syms" and "geometry inp = Some g"
  shows "\<exists>rows. np_reshape3 g = Inr rows \<and> length syms \<le> length rows \<and>
           conformer = take (length syms) (scale_rows rows BOHR_2_ANGSTROM)"
proof -
  from assms(1) obtain syms' conn' geom em0 where
    a: "symbols inp = Some syms'"
       "(case geometry inp of None \<Rightarrow> geom = None
      | Some g \<Rightarrow> \<exists>rows. np_reshape3 g = Inr rows \<and> geom = Some (scale_rows rows BOHR_2_ANGSTROM))"
       "add_atoms geom 0 syms' RWMol_new (Conformer_new (length syms')) = Inr (em0, conformer)"
    by (rule assemble_cases)
  with assms obtain rows where r: "np_reshape3 g = Inr rows"
    and b: "add_atoms (Some (scale_rows rows BOHR_2_ANGSTROM)) 0 syms RWMol_new
              (Conformer_new (length syms)) = Inr (em0, conformer)"
    by auto
  have "length (atoms RWMol_new) + length syms \<le> length (Conformer_new (length syms))"
    by (simp add: RWMol_new_def Conformer_new_def)
  from add_atoms_conformer [OF b this]
  have "syms = [] \<or> length syms \<le> length rows"
    and "conformer = take (length syms) (scale_rows rows BOHR_2_ANGSTROM)"
    by (simp_all add: RWMol_new_def Conformer_new_def length_scale_rows)
  with r show ?thesis by auto
qed

lemma mol_from_json_Inr:
  assumes "mol_from_json env inp = Inr m" and "Chem env = Some tk"
  shows "\<exists>em conformer molecule.
    assemble tk inp = Inr (em, conformer) \<and>
    SanitizeMol tk em = Some molecule \<and>
    (if geometry inp = None then m = molecule
     else \<exists>m1 cid m2.
        AddConformer molecule conformer = Inr (m1, cid) \<and>
        AssignStereochemistryFrom3D tk m1 cid = Inr m2 \<and>
        m = SetProp m2 ''_json_geometry'' ''1'')"
  using assms
  by (auto simp: mol_from_json_def split: option.splits sum.splits prod.splits if_splits)

lemma assemble_keys:
  assumes "assemble tk inp = Inr (em, conformer)"
  shows "\<exists>syms conn. symbols inp = Some syms \<and> connectivity inp = Some conn"
  using assms by (auto simp: assemble_def split: option.splits)

lemma np_reshape3_nth:
  assumes "np_reshape3 g = Inr rows" and "i < length rows"
  shows "rows ! i = (g ! (3 * i), g ! (3 * i + 1), g ! (3 * i + 2))"
proof -
  from np_reshape3_rows [OF assms(1)]
  have "rows = map (\<lambda>k. (g ! (3 * k), g ! (3 * k + 1), g ! (3 * k + 2))) [0..<length rows]"
    by simp
  then have "rows ! i = map (\<lambda>k. (g ! (3 * k), g ! (3 * k + 1), g ! (3 * k + 2))) [0..<length rows] ! i"
    by simp
  also have "\<dots> = (g ! (3 * i), g ! (3 * i + 1), g ! (3 * i + 2))"
    using assms(2) by simp
  finally show ?thesis .
qed

lemma assemble_connectivity_prefix:
  assumes conn: "connectivity inp = Some (pre @ post)"
    and pre: "assemble tk (inp\<lparr>connectivity := Some pre\<rparr>) = Inr (em1, conformer)"
  shows "assemble tk inp =
           (case add_bonds tk post em1 of Inl e \<Rightarrow> Inl e | Inr em \<Rightarrow> Inr (em, conformer))"
  using assms
  by (auto simp: assemble_def add_bonds_append split: option.splits sum.splits prod.splits)



section \<open>\<^verbatim>\<open>os.path.splitext\<close> and \<^verbatim>\<open>_get_extension\<close>\<close>

lemma rfind_from_notin: "c \<notin> set p \<Longrightarrow> rfind_from p c i found = found"
  by (induction p arbitrary: i found) auto

lemma rfind_from_last:
  "c \<notin> set ys \<Longrightarrow> rfind_from (xs @ c # ys) c i found = i + int (length xs)"
  by (induction xs arbitrary: i found) (auto simp: rfind_from_notin)

lemma rfind_from_append_notin:
  "c \<notin> set ys \<Longrightarrow> rfind_from (xs @ ys) c i found = rfind_from xs c i found"
  by (induction xs arbitrary: i found) (auto simp: rfind_from_notin)

lemma rfind_from_less:
  "found < i \<Longrightarrow> rfind_from xs c i found < i + int (length xs)"
proof (induction xs arbitrary: i found)
  case Nil
  then show ?case by simp
next
  case (Cons x xs)
  have "(if x = c then i else found) < i + 1"
    using Cons.prems by simp
  from Cons.IH [OF this] show ?case by simp
qed

lemma rfind_notin: "c \<notin> set p \<Longrightarrow> rfind p c = - 1"
  by (simp add: rfind_def rfind_from_notin)

lemma rfind_last: "c \<notin> set ys \<Longrightarrow> rfind (xs @ c # ys) c = int (length xs)"
  by (simp add: rfind_def rfind_from_last)

lemma rfind_append_notin: "c \<notin> set ys \<Longrightarrow> rfind (xs @ ys) c = rfind xs c"
  by (simp add: rfind_def rfind_from_append_notin)

lemma rfind_less: "rfind xs c < int (length xs)"
  using rfind_from_less [of "- 1" 0 xs c] by (simp add: rfind_def)

lemma take1_drop: "take (Suc 0) (drop j p) = (if j < length p then [p ! j] else [])"
proof (cases "j < length p")
  case True
  then have "drop j p = p ! j # drop (Suc j) p"
    by (simp add: Cons_nth_drop_Suc)
  with True show ?thesis by simp
next
  case False
  then show ?thesis by simp
qed

lemma splitext_loop_found:
  "f \<le> j \<Longrightarrow> j < dotIndex \<Longrightarrow> j < length p \<Longrightarrow> p ! j \<noteq> CHR ''.'' \<Longrightarrow>
     splitext_loop p f dotIndex = (take dotIndex p, drop dotIndex p)"
proof (induction p f dotIndex rule: splitext_loop.induct)
  case (1 p f dotIndex)
  show ?case
  proof (cases "take 1 (drop f p) \<noteq> ''.''")
    case True
    with "1.prems" show ?thesis
      by (subst splitext_loop.simps) simp
  next
    case False
    with "1.prems" have "f \<noteq> j"
      by (auto simp: take1_drop)
    with "1.prems" have "f + 1 \<le> j" "f < dotIndex" by simp_all
    with "1.IH" [OF _ False] "1.prems" False show ?thesis
      by (subst splitext_loop.simps) simp
  qed
qed

lemma sep_index:
  assumes "dir_prefix d" and "CHR ''/'' \<notin> set r"
  shows "rfind (d @ r) CHR ''/'' + 1 = int (length d)"
proof (cases "d = []")
  case True
  with assms show ?thesis by (simp add: rfind_notin)
next
  case False
  with assms(1) obtain d' where d: "d = d' @ [CHR ''/'']"
    by (metis dir_prefix_def append_butlast_last_id)
  have "rfind (d' @ CHR ''/'' # r) CHR ''/'' = int (length d')"
    by (rule rfind_last [OF assms(2)])
  with d show ?thesis by simp
qed

lemma dot_index_before:
  assumes "dir_prefix d" and "CHR ''.'' \<notin> set r"
  shows "rfind (d @ r) CHR ''.'' + 1 < int (length d) \<or> d = [] \<and> rfind (d @ r) CHR ''.'' = - 1"
proof (cases "d = []")
  case True
  with assms show ?thesis by (simp add: rfind_notin)
next
  case False
  with assms(1) obtain d' where d: "d = d' @ [CHR ''/'']"
    by (metis dir_prefix_def append_butlast_last_id)
  have "rfind (d' @ (CHR ''/'' # r)) CHR ''.'' = rfind d' CHR ''.''"
    by (rule rfind_append_notin) (use assms(2) in simp)
  moreover have "rfind d' CHR ''.'' < int (length d')"
    by (rule rfind_less)
  ultimately show ?thesis using d by simp
qed

lemma splitext_ext:
  assumes d: "dir_prefix d" and n: "name_part n" and x: "ext_part x"
  shows "splitext (d @ n @ CHR ''.'' # x) = (d @ n, CHR ''.'' # x)"
proof -
  let ?p = "d @ n @ CHR ''.'' # x"
  from n x have "CHR ''/'' \<notin> set (n @ CHR ''.'' # x)"
    by (simp add: name_part_def ext_part_def)
  from sep_index [OF d this] have sep: "rfind ?p CHR ''/'' + 1 = int (length d)" .
  from x have "rfind ((d @ n) @ CHR ''.'' # x) CHR ''.'' = int (length (d @ n))"
    by (intro rfind_last) (simp add: ext_part_def)
  then have dot: "rfind ?p CHR ''.'' = int (length d + length n)" by simp
  from n obtain k where k: "k < length n" "n ! k \<noteq> CHR ''.''"
    by (auto simp: name_part_def in_set_conv_nth)
  have "splitext_loop ?p (length d) (length d + length n)
          = (take (length d + length n) ?p, drop (length d + length n) ?p)"
  proof (rule splitext_loop_found [where j = "length d + k"])
    show "?p ! (length d + k) \<noteq> CHR ''.''"
      using k by (simp add: nth_append)
    show "length d \<le> length d + k" by simp
    show "length d + k < length d + length n" using k by simp
    show "length d + k < length ?p" using k by simp
  qed
  moreover have sepn: "nat (rfind ?p CHR ''/'' + 1) = length d"
    using sep by simp
  moreover have dotn: "nat (rfind ?p CHR ''.'') = length d + length n"
    using dot by simp
  moreover have lt: "rfind ?p CHR ''/'' < rfind ?p CHR ''.''"
    using sep dot k by simp
  ultimately show ?thesis
    unfolding splitext_def Let_def by (simp only: if_True take_append drop_append)
      simp
qed

lemma splitext_no_ext:
  assumes d: "dir_prefix d" and n: "ext_part n"
  shows "splitext (d @ n) = (d @ n, [])"
proof -
  from n have s: "CHR ''/'' \<notin> set n" and t: "CHR ''.'' \<notin> set n"
    by (simp_all add: ext_part_def)
  from sep_index [OF d s] dot_index_before [OF d t]
  have "\<not> rfind (d @ n) CHR ''/'' < rfind (d @ n) CHR ''.''"
    by auto
  then show ?thesis
    by (simp add: splitext_def Let_def)
qed

lemma name_part_ext: "name_part n \<Longrightarrow> ext_part x \<Longrightarrow> name_part (n @ CHR ''.'' # x)"
  by (auto simp: name_part_def ext_part_def)

lemma ext_part_gz: "ext_part ''gz''"
  by (simp add: ext_part_def)

lemma get_extension_final:
  "dir_prefix d \<Longrightarrow> name_part n \<Longrightarrow> ext_part x \<Longrightarrow> x \<noteq> ''gz'' \<Longrightarrow>
     get_extension (d @ n @ CHR ''.'' # x) = CHR ''.'' # x"
  by (simp add: get_extension_def splitext_ext)

lemma get_extension_gz:
  assumes "dir_prefix d" and "name_part n"
  shows "get_extension (d @ n @ ''.gz'') = snd (splitext (d @ n)) @ ''.gz''"
proof -
  have "splitext (d @ n @ CHR ''.'' # ''gz'') = (d @ n, CHR ''.'' # ''gz'')"
    by (rule splitext_ext [OF assms ext_part_gz])
  then show ?thesis
    by (simp add: get_extension_def)
qed

lemma get_extension_double:
  assumes d: "dir_prefix d" and n: "name_part n" and x: "ext_part x"
  shows "get_extension (d @ n @ CHR ''.'' # x @ ''.gz'') = CHR ''.'' # x @ ''.gz''"
proof -
  have "get_extension (d @ (n @ CHR ''.'' # x) @ ''.gz'')
          = snd (splitext (d @ n @ CHR ''.'' # x)) @ ''.gz''"
    using get_extension_gz [OF d name_part_ext [OF n x]] by simp
  then show ?thesis
    by (simp add: splitext_ext [OF d n x])
qed

lemma splitext_loop_dots:
  "(\<forall>j. f \<le> j \<and> j < dotIndex \<longrightarrow> j < length p \<and> p ! j = CHR ''.'') \<Longrightarrow>
     splitext_loop p f dotIndex = (p, [])"
proof (induction p f dotIndex rule: splitext_loop.induct)
  case (1 p f dotIndex)
  show ?case
  proof (cases "f < dotIndex")
    case False
    then show ?thesis
      by (subst splitext_loop.simps) simp
  next
    case True
    with "1.prems" have here: "f < length p" "p ! f = CHR ''.''"
      by auto
    then have t: "\<not> take 1 (drop f p) \<noteq> ''.''"
      by (simp add: take1_drop)
    from "1.prems"
    have "\<forall>j. f + 1 \<le> j \<and> j < dotIndex \<longrightarrow> j < length p \<and> p ! j = CHR ''.''"
      by simp
    from "1.IH" [OF True t this] True t show ?thesis
      by (subst splitext_loop.simps) simp
  qed
qed

lemma splitext_hidden:
  assumes d: "dir_prefix d" and ds: "dots_only dots" and n: "ext_part n"
  shows "splitext (d @ dots @ n) = (d @ dots @ n, [])"
proof (cases "dots = []")
  case True
  with splitext_no_ext [OF d n] show ?thesis by simp
next
  case False
  let ?p = "d @ dots @ n"
  from False ds obtain pre where dots: "dots = pre @ [CHR ''.'']"
    by (metis append_butlast_last_id dots_only_def last_in_set singletonD subsetD)
  from ds dots have "set pre \<subseteq> {CHR ''.''}"
    by (simp add: dots_only_def)
  then have pre: "\<forall>k < length pre. pre ! k = CHR ''.''"
    by (metis nth_mem singletonD subsetD)
  from ds n have "CHR ''/'' \<notin> set (dots @ n)"
    by (auto simp: dots_only_def ext_part_def)
  from sep_index [OF d this] have sep: "rfind ?p CHR ''/'' + 1 = int (length d)" .
  from n have "rfind ((d @ pre) @ CHR ''.'' # n) CHR ''.'' = int (length (d @ pre))"
    by (intro rfind_last) (simp add: ext_part_def)
  with dots have dot: "rfind ?p CHR ''.'' = int (length d + length pre)"
    by simp
  have "splitext_loop ?p (length d) (length d + length pre) = (?p, [])"
  proof (rule splitext_loop_dots, intro allI impI)
    fix j
    assume j: "length d \<le> j \<and> j < length d + length pre"
    then have "j - length d < length pre" by arith
    with pre have "pre ! (j - length d) = CHR ''.''" by blast
    with j show "j < length ?p \<and> ?p ! j = CHR ''.''"
      by (simp add: dots nth_append)
  qed
  moreover have sepn: "nat (rfind ?p CHR ''/'' + 1) = length d"
    using sep by simp
  moreover have dotn: "nat (rfind ?p CHR ''.'') = length d + length pre"
    using dot by simp
  moreover have lt: "rfind ?p CHR ''/'' < rfind ?p CHR ''.''"
    using sep dot by simp
  ultimately show ?thesis
    unfolding splitext_def Let_def by (simp only: if_True)
qed

lemma name_part_hidden:
  "dots_only dots \<Longrightarrow> ext_part r \<Longrightarrow> r \<noteq> [] \<Longrightarrow> name_part (dots @ r)"
proof -
  assume ds: "dots_only dots" and r: "ext_part r" and ne: "r \<noteq> []"
  from ne have "hd r \<in> set r" by simp
  with r have "hd r \<noteq> CHR ''.''" by (auto simp: ext_part_def)
  with \<open>hd r \<in> set r\<close> ds r show ?thesis
    by (auto simp: name_part_def dots_only_def ext_part_def)
qed

lemma get_extension_hidden:
  "dir_prefix d \<Longrightarrow> dots_only dots \<Longrightarrow> ext_part n \<Longrightarrow> get_extension (d @ dots @ n) = []"
  by (simp add: get_extension_def splitext_hidden)

lemma get_extension_hidden_gz:
  assumes d: "dir_prefix d" and ds: "dots_only dots" and r: "ext_part r" and ne: "r \<noteq> []"
  shows "get_extension (d @ dots @ r @ ''.gz'') = ''.gz''"
proof -
  have "get_extension (d @ (dots @ r) @ ''.gz'') = snd (splitext (d @ dots @ r)) @ ''.gz''"
    using get_extension_gz [OF d name_part_hidden [OF ds r ne]] by simp
  then show ?thesis
    by (simp add: splitext_hidden [OF d ds r])
qed

lemma load_mol_rd_tail_str:
  "load_mol_rd_tail env tk (PyStr s) (Some r) = Inr r"
  by (simp add: load_mol_rd_tail_def Let_def split: option.splits)

section \<open>\<^verbatim>\<open>mol_from_json\<close> returns a finished molecule or raises\<close>

text \<open>
  C1. For every input dictionary, \<^verbatim>\<open>mol_from_json\<close> either raises or returns a completed
  molecule: a molecule it returns is the assembled graph after a successful
  \<^verbatim>\<open>Chem.SanitizeMol\<close>, and, when the input has a geometry, after the conformer was
  added, the stereochemistry assigned and the tag set. In particular, once the graph is
  assembled, a failing sanitization makes the call raise RuntimeError with the message
  \<^verbatim>\<open>Could not sanitize molecule\<close>.
\<close>

theorem mol_from_json_completes_or_raises:
  "((\<exists>e. mol_from_json env inp = Inl e) \<or>
    (\<exists>tk em conformer molecule.
       Chem env = Some tk \<and> assemble tk inp = Inr (em, conformer) \<and>
       SanitizeMol tk em = Some molecule \<and>
       (if geometry inp = None then mol_from_json env inp = Inr molecule
        else \<exists>m1 cid m2.
               AddConformer molecule conformer = Inr (m1, cid) \<and>
               AssignStereochemistryFrom3D tk m1 cid = Inr m2 \<and>
               mol_from_json env inp = Inr (SetProp m2 ''_json_geometry'' ''1'')))) \<and>
   (\<forall>tk em conformer.
      Chem env = Some tk \<and> assemble tk inp = Inr (em, conformer) \<and> SanitizeMol tk em = None
      \<longrightarrow> mol_from_json env inp = Inl (RuntimeError ''Could not sanitize molecule''))"
  by (auto simp: mol_from_json_def split: option.splits sum.splits prod.splits)

theorem mol_from_json_completes_or_raises_witness:
  "Chem \<lparr>Chem = Some strict_Chem, oechem = None\<rparr> = Some strict_Chem \<and>
   assemble strict_Chem h2_json = Inr (h2_graph, [(0, 0, 0), (0, 0, 1.4 * BOHR_2_ANGSTROM)]) \<and>
   SanitizeMol strict_Chem h2_graph = None \<and>
   mol_from_json \<lparr>Chem = Some strict_Chem, oechem = None\<rparr> h2_json
     = Inl (RuntimeError ''Could not sanitize molecule'')"
proof -
  have a: "assemble strict_Chem h2_json
             = Inr (h2_graph, [(0, 0, 0), (0, 0, 1.4 * BOHR_2_ANGSTROM)])"
    by (simp add: assemble_h2 strict_Chem_def simple_Chem_def RWMol_new_def)
  have s: "SanitizeMol strict_Chem h2_graph = None"
    by (simp add: strict_Chem_def)
  from mol_from_json_completes_or_raises
         [of "\<lparr>Chem = Some strict_Chem, oechem = None\<rparr>" h2_json] a s
  show ?thesis
    by simp
qed

section \<open>Atoms and coordinates of the returned molecule\<close>

text \<open>
  C2. When the input has the keys \<^verbatim>\<open>symbols\<close> and \<^verbatim>\<open>geometry\<close> and \<^verbatim>\<open>mol_from_json\<close>
  returns a molecule, the molecule has one atom per symbol, atom \<open>i\<close> has the atomic
  number the table gives for \<open>symbols[i]\<close>, and its only conformer places atom \<open>i\<close> at
  \<open>(geometry[3i], geometry[3i+1], geometry[3i+2])\<close>, each coordinate multiplied by
  \<open>BOHR_2_ANGSTROM = 0.529177210\<close>. A call that returns has a geometry of at least
  \<open>3 * len(symbols)\<close> entries, so the claim's length condition is not needed. The
  toolkit is assumed to leave the atoms and the conformers alone when it sanitizes and
  when it assigns the stereochemistry. Coordinates are reals: the product is exact.
\<close>

theorem mol_from_json_atoms_and_positions:
  assumes ret: "mol_from_json env inp = Inr m"
    and tk: "Chem env = Some tk"
    and syms: "symbols inp = Some syms"
    and g: "geometry inp = Some g"
    and sanitize: "\<forall>a b. SanitizeMol tk a = Some b \<longrightarrow> atoms b = atoms a \<and> conformers b = conformers a"
    and stereo: "\<forall>a cid b. AssignStereochemistryFrom3D tk a cid = Inr b
                   \<longrightarrow> atoms b = atoms a \<and> conformers b = conformers a"
  shows "length (atoms m) = length syms \<and>
         (\<exists>c. conformers m = [c] \<and> length c = length syms \<and>
            (\<forall>i < length syms.
               map_of symbols_table (syms ! i) = Some (atomic_num (atoms m ! i)) \<and>
               c ! i = (g ! (3 * i) * BOHR_2_ANGSTROM,
                        g ! (3 * i + 1) * BOHR_2_ANGSTROM,
                        g ! (3 * i + 2) * BOHR_2_ANGSTROM)))"
proof -
  from mol_from_json_Inr [OF ret tk] g obtain em conformer molecule m1 cid m2 where
    asm: "assemble tk inp = Inr (em, conformer)"
    and san: "SanitizeMol tk em = Some molecule"
    and addc: "AddConformer molecule conformer = Inr (m1, cid)"
    and st: "AssignStereochemistryFrom3D tk m1 cid = Inr m2"
    and m: "m = SetProp m2 ''_json_geometry'' ''1''"
    by auto
  from assemble_keys [OF asm] obtain conn where conn: "connectivity inp = Some conn"
    by blast
  have em_atoms: "atoms em = map (\<lambda>s. Atom_new (the (map_of symbols_table s))) syms"
    and em_confs: "conformers em = []"
    and known: "\<forall>s \<in> set syms. map_of symbols_table s \<noteq> None"
    using assemble_graph [OF asm syms conn] by simp_all
  from sanitize san have mol: "atoms molecule = atoms em" "conformers molecule = conformers em"
    by auto
  from addc have m1: "m1 = molecule\<lparr>conformers := conformers molecule @ [conformer]\<rparr>"
    by (auto simp: AddConformer_def split: if_splits)
  from stereo st have m2: "atoms m2 = atoms m1" "conformers m2 = conformers m1"
    by auto
  from m m2 m1 mol em_atoms em_confs
  have atoms_m: "atoms m = map (\<lambda>s. Atom_new (the (map_of symbols_table s))) syms"
    and confs_m: "conformers m = [conformer]"
    by (simp_all add: SetProp_def)
  from assemble_conformer [OF asm syms g] obtain rows where rows: "np_reshape3 g = Inr rows"
    and le: "length syms \<le> length rows"
    and conf: "conformer = take (length syms) (scale_rows rows BOHR_2_ANGSTROM)"
    by blast
  have len_c: "length conformer = length syms"
    using le conf by (simp add: length_scale_rows)
  have pos: "conformer ! i = (g ! (3 * i) * BOHR_2_ANGSTROM,
                        g ! (3 * i + 1) * BOHR_2_ANGSTROM,
                        g ! (3 * i + 2) * BOHR_2_ANGSTROM)" if "i < length syms" for i
  proof -
    from that le have i: "i < length rows" by simp
    from that conf have "conformer ! i = scale_rows rows BOHR_2_ANGSTROM ! i" by simp
    also have "\<dots> = (fst (rows ! i) * BOHR_2_ANGSTROM, fst (snd (rows ! i)) * BOHR_2_ANGSTROM,
                     snd (snd (rows ! i)) * BOHR_2_ANGSTROM)"
      by (rule scale_rows_nth [OF i])
    finally show ?thesis by (simp add: np_reshape3_nth [OF rows i])
  qed
  have elem: "map_of symbols_table (syms ! i) = Some (atomic_num (atoms m ! i))"
    if "i < length syms" for i
  proof -
    from known that obtain z where z: "map_of symbols_table (syms ! i) = Some z"
      by (metis nth_mem not_None_eq)
    with that atoms_m show ?thesis by (simp add: Atom_new_def)
  qed
  from atoms_m confs_m len_c pos elem show ?thesis by simp
qed

theorem mol_from_json_atoms_and_positions_witness:
  "mol_from_json rdkit_only h2_json = Inr h2_mol \<and>
   length (atoms h2_mol) = 2 \<and>
   map_of symbols_table ''H'' = Some (atomic_num (atoms h2_mol ! 1)) \<and>
   hd (conformers h2_mol) ! 1 = (0 * BOHR_2_ANGSTROM, 0 * BOHR_2_ANGSTROM, 1.4 * BOHR_2_ANGSTROM)"
proof -
  have tk: "Chem rdkit_only = Some simple_Chem"
    by (simp add: rdkit_only_def)
  have syms: "symbols h2_json = Some [''H'', ''H'']"
    and g: "geometry h2_json = Some [0, 0, 0, 0, 0, 1.4]"
    by (simp_all add: h2_json_def)
  have san: "\<forall>a b. SanitizeMol simple_Chem a = Some b
               \<longrightarrow> atoms b = atoms a \<and> conformers b = conformers a"
    by (simp add: simple_Chem_def)
  have st: "\<forall>a cid b. AssignStereochemistryFrom3D simple_Chem a cid = Inr b
               \<longrightarrow> atoms b = atoms a \<and> conformers b = conformers a"
    by (simp add: simple_Chem_def)
  from mol_from_json_atoms_and_positions [OF mol_from_json_h2 tk syms g san st]
  obtain c where len: "length (atoms h2_mol) = length [''H'', ''H'']"
    and c: "conformers h2_mol = [c]"
    and at: "\<forall>i < length [''H'', ''H''].
               map_of symbols_table ([''H'', ''H''] ! i) = Some (atomic_num (atoms h2_mol ! i)) \<and>
               c ! i = ([0, 0, 0, 0, 0, 1.4] ! (3 * i) * BOHR_2_ANGSTROM,
                        [0, 0, 0, 0, 0, 1.4] ! (3 * i + 1) * BOHR_2_ANGSTROM,
                        [0, 0, 0, 0, 0, 1.4] ! (3 * i + 2) * BOHR_2_ANGSTROM)"
    by blast
  have one: "(1::nat) < length [''H'', ''H'']"
    by simp
  note at1 = at [rule_format, OF one]
  from at1 len c mol_from_json_h2 show ?thesis
    by simp
qed

section \<open>The geometry tag\<close>

text \<open>
  C5. The molecule \<^verbatim>\<open>mol_from_json\<close> returns has the property \<^verbatim>\<open>_json_geometry\<close> set to
  \<^verbatim>\<open>'1'\<close> exactly when the input dictionary has the key \<^verbatim>\<open>geometry\<close>; without the key
  the molecule has no conformer and the property is not set. Sanitization is assumed
  not to add a conformer nor to touch that property.
\<close>

theorem mol_from_json_geometry_tag:
  assumes ret: "mol_from_json env inp = Inr m"
    and tk: "Chem env = Some tk"
    and sanitize: "\<forall>a b. SanitizeMol tk a = Some b
        \<longrightarrow> conformers b = conformers a \<and> props b ''_json_geometry'' = props a ''_json_geometry''"
  shows "(props m ''_json_geometry'' = Some ''1'' \<longleftrightarrow> geometry inp \<noteq> None) \<and>
         (geometry inp = None \<longrightarrow> conformers m = [] \<and> props m ''_json_geometry'' = None)"
proof -
  from mol_from_json_Inr [OF ret tk] obtain em conformer molecule where
    asm: "assemble tk inp = Inr (em, conformer)"
    and san: "SanitizeMol tk em = Some molecule"
    and fin: "if geometry inp = None then m = molecule
     else \<exists>m1 cid m2.
        AddConformer molecule conformer = Inr (m1, cid) \<and>
        AssignStereochemistryFrom3D tk m1 cid = Inr m2 \<and>
        m = SetProp m2 ''_json_geometry'' ''1''"
    by blast
  from assemble_keys [OF asm] obtain syms conn
    where k: "symbols inp = Some syms" "connectivity inp = Some conn"
    by blast
  from assemble_graph(3,4) [OF asm k]
  have em: "conformers em = []" "props em = Map.empty" by simp_all
  with sanitize san have mol: "conformers molecule = []" "props molecule ''_json_geometry'' = None"
    by auto
  show ?thesis
  proof (cases "geometry inp")
    case None
    with fin mol show ?thesis by simp
  next
    case (Some g)
    with fin obtain m2 where "m = SetProp m2 ''_json_geometry'' ''1''" by auto
    with Some show ?thesis by (simp add: SetProp_def)
  qed
qed

theorem mol_from_json_geometry_tag_witness:
  "props h2_mol ''_json_geometry'' = Some ''1'' \<and> geometry h2_json \<noteq> None \<and>
   geometry h2_json_no_geometry = None \<and> conformers h2_graph = [] \<and>
   props h2_graph ''_json_geometry'' = None"
proof -
  have tk: "Chem rdkit_only = Some simple_Chem"
    by (simp add: rdkit_only_def)
  have san: "\<forall>a b. SanitizeMol simple_Chem a = Some b
        \<longrightarrow> conformers b = conformers a \<and> props b ''_json_geometry'' = props a ''_json_geometry''"
    by (simp add: simple_Chem_def)
  have g: "geometry h2_json \<noteq> None" "geometry h2_json_no_geometry = None"
    by (simp_all add: h2_json_def h2_json_no_geometry_def)
  from mol_from_json_geometry_tag [OF mol_from_json_h2 tk san] g
  have a: "props h2_mol ''_json_geometry'' = Some ''1''"
    by simp
  from mol_from_json_geometry_tag [OF mol_from_json_h2_no_geometry tk san] g
  have b: "conformers h2_graph = [] \<and> props h2_graph ''_json_geometry'' = None"
    by simp
  from a b g show ?thesis by simp
qed

section \<open>Bond orders\<close>

text \<open>
  C3, as stated: an entry with a bond order other than 1, 2 and 3 makes
  \<^verbatim>\<open>mol_from_json\<close> raise KeyError. Two inputs with the entry \<open>[0, 1, 4]\<close> refute it. In
  the first the entry before is a self-bond, which \<^verbatim>\<open>AddBond\<close> refuses, so the toolkit's
  exception leaves the loop before the lookup. In the second the geometry has four
  numbers and the reshape raises ValueError before any atom is built.
\<close>

theorem mol_from_json_bond_orders_counterexample:
  "connectivity h2_json_self_bond = Some [[0, 0, 1], [0, 1, 4]] \<and>
   mol_from_json rdkit_only h2_json_self_bond = Inl ToolkitError \<and>
   connectivity h2_json_bad_order_four = Some [[0, 1, 4]] \<and>
   mol_from_json rdkit_only h2_json_bad_order_four = Inl ValueError"
proof -
  have "mol_from_json rdkit_only h2_json_self_bond = Inl ToolkitError"
    by (simp add: mol_from_json_def rdkit_only_def assemble_def h2_json_self_bond_def
        h2_json_def np_reshape3_six scale_rows_def map_of_symbols_H AddAtom_def RWMol_new_def
        Conformer_new_def SetAtomPosition_def BO_DISPATCH_TABLE_def AddBond_def
        simple_Chem_def numeral_2_eq_2)
  moreover have "mol_from_json rdkit_only h2_json_bad_order_four = Inl ValueError"
    by (simp add: mol_from_json_def rdkit_only_def assemble_def h2_json_bad_order_four_def
        h2_json_def np_reshape3_def)
  ultimately show ?thesis
    by (simp add: h2_json_self_bond_def h2_json_bad_order_four_def)
qed

text \<open>
  C3, amended. When \<^verbatim>\<open>mol_from_json\<close> returns a molecule, the graph it sanitized has
  exactly one bond per connectivity entry, in the order of the entries: an entry
  \<open>[a, b, o]\<close> has \<open>o\<close> among 1, 2 and 3 and gave the bond between \<open>a\<close> and \<open>b\<close> of type
  SINGLE, DOUBLE or TRIPLE. The bonds of the returned molecule are those sanitization
  left (stereo assignment is assumed to keep them), so they are these very bonds for a
  toolkit whose sanitization keeps the bonds. A call with an entry of any other order
  never returns a molecule: it raises KeyError from the lookup in the dispatch table
  when the loop reaches the entry (the input restricted to the entries before it
  assembles), and what was raised before otherwise.
\<close>

theorem mol_from_json_bond_orders:
  "(\<forall>tk m conn.
      mol_from_json env inp = Inr m \<and> Chem env = Some tk \<and> connectivity inp = Some conn \<and>
      (\<forall>x cid y. AssignStereochemistryFrom3D tk x cid = Inr y \<longrightarrow> bonds y = bonds x) \<longrightarrow>
        (\<exists>em conformer molecule.
           assemble tk inp = Inr (em, conformer) \<and> SanitizeMol tk em = Some molecule \<and>
           bonds m = bonds molecule \<and>
           length (bonds em) = length conn \<and>
           (\<forall>j a b ord. j < length conn \<and> conn ! j = [a, b, ord] \<longrightarrow>
              (ord = 1 \<or> ord = 2 \<or> ord = 3) \<and>
              bonds em ! j
                = (a, b, if ord = 1 then SINGLE else if ord = 2 then DOUBLE else TRIPLE))) \<and>
        ((\<forall>x y. SanitizeMol tk x = Some y \<longrightarrow> bonds y = bonds x) \<longrightarrow>
           length (bonds m) = length conn \<and>
           (\<forall>j a b ord. j < length conn \<and> conn ! j = [a, b, ord] \<longrightarrow>
              bonds m ! j
                = (a, b, if ord = 1 then SINGLE else if ord = 2 then DOUBLE else TRIPLE)))) \<and>
   (\<forall>tk pre post a b ord em1 conformer.
      Chem env = Some tk \<and> connectivity inp = Some (pre @ [a, b, ord] # post) \<and>
      ord \<noteq> 1 \<and> ord \<noteq> 2 \<and> ord \<noteq> 3 \<and>
      assemble tk (inp\<lparr>connectivity := Some pre\<rparr>) = Inr (em1, conformer) \<longrightarrow>
        mol_from_json env inp = Inl (KeyError (IntKey ord))) \<and>
   (\<forall>conn a b ord.
      connectivity inp = Some conn \<and> [a, b, ord] \<in> set conn \<and>
      ord \<noteq> 1 \<and> ord \<noteq> 2 \<and> ord \<noteq> 3 \<longrightarrow>
        (\<exists>e. mol_from_json env inp = Inl e))"
proof (intro conjI allI impI)
  fix tk m conn
  assume h: "mol_from_json env inp = Inr m \<and> Chem env = Some tk \<and> connectivity inp = Some conn \<and>
      (\<forall>x cid y. AssignStereochemistryFrom3D tk x cid = Inr y \<longrightarrow> bonds y = bonds x)"
  then have ret: "mol_from_json env inp = Inr m" and tk: "Chem env = Some tk"
    and conn: "connectivity inp = Some conn"
    and stereo: "\<forall>x cid y. AssignStereochemistryFrom3D tk x cid = Inr y \<longrightarrow> bonds y = bonds x"
    by simp_all
  from mol_from_json_Inr [OF ret tk] obtain em conformer molecule where
    asm: "assemble tk inp = Inr (em, conformer)"
    and san: "SanitizeMol tk em = Some molecule"
    and fin: "if geometry inp = None then m = molecule
     else \<exists>m1 cid m2.
        AddConformer molecule conformer = Inr (m1, cid) \<and>
        AssignStereochemistryFrom3D tk m1 cid = Inr m2 \<and>
        m = SetProp m2 ''_json_geometry'' ''1''"
    by blast
  have bm: "bonds m = bonds molecule"
  proof (cases "geometry inp = None")
    case True
    with fin show ?thesis by simp
  next
    case False
    with fin obtain m1 cid m2 where
      a: "AddConformer molecule conformer = Inr (m1, cid)"
      and s: "AssignStereochemistryFrom3D tk m1 cid = Inr m2"
      and m: "m = SetProp m2 ''_json_geometry'' ''1''"
      by auto
    from a have "bonds m1 = bonds molecule"
      by (auto simp: AddConformer_def split: if_splits)
    moreover from stereo s have "bonds m2 = bonds m1" by blast
    ultimately show ?thesis using m by (simp add: SetProp_def)
  qed
  from assemble_keys [OF asm] obtain syms where syms: "symbols inp = Some syms"
    by blast
  note G = assemble_graph(2,6) [OF asm syms conn]
  have len: "length (bonds em) = length conn"
    using G(1) by simp
  have entry: "(ord = 1 \<or> ord = 2 \<or> ord = 3) \<and>
           bonds em ! j = (a, b, if ord = 1 then SINGLE else if ord = 2 then DOUBLE else TRIPLE)"
    if j: "j < length conn \<and> conn ! j = [a, b, ord]" for j a b ord
  proof -
    from j have mem: "[a, b, ord] \<in> set conn"
      by (metis nth_mem)
    with G(2) have ok: "map_of BO_DISPATCH_TABLE ord \<noteq> None" by fastforce
    from G(1) j have "bonds em ! j = (a, b, the (map_of BO_DISPATCH_TABLE ord))"
      by simp
    with ok show ?thesis
      by (simp add: map_of_BO split: if_splits)
  qed
  from asm san bm len entry
  show "\<exists>em conformer molecule.
           assemble tk inp = Inr (em, conformer) \<and> SanitizeMol tk em = Some molecule \<and>
           bonds m = bonds molecule \<and>
           length (bonds em) = length conn \<and>
           (\<forall>j a b ord. j < length conn \<and> conn ! j = [a, b, ord] \<longrightarrow>
              (ord = 1 \<or> ord = 2 \<or> ord = 3) \<and>
              bonds em ! j
                = (a, b, if ord = 1 then SINGLE else if ord = 2 then DOUBLE else TRIPLE))"
    by blast
  assume keep: "\<forall>x y. SanitizeMol tk x = Some y \<longrightarrow> bonds y = bonds x"
  with san have "bonds molecule = bonds em" by blast
  with bm have eq: "bonds m = bonds em" by simp
  from eq len show "length (bonds m) = length conn" by simp
  fix j a b ord
  assume "j < length conn \<and> conn ! j = [a, b, ord]"
  from entry [OF this] eq
  show "bonds m ! j = (a, b, if ord = 1 then SINGLE else if ord = 2 then DOUBLE else TRIPLE)"
    by simp
next
  fix tk pre post a b ord em1 conformer
  assume h: "Chem env = Some tk \<and> connectivity inp = Some (pre @ [a, b, ord] # post) \<and>
      ord \<noteq> 1 \<and> ord \<noteq> 2 \<and> ord \<noteq> 3 \<and>
      assemble tk (inp\<lparr>connectivity := Some pre\<rparr>) = Inr (em1, conformer)"
  then have bad: "map_of BO_DISPATCH_TABLE (last [a, b, ord]) = None"
    by (simp add: map_of_BO)
  have "add_bonds tk ([a, b, ord] # post) em1 = Inl (KeyError (IntKey (last [a, b, ord])))"
    by (rule add_bonds_bad_order [OF _ bad]) simp
  with h have "assemble tk inp = Inl (KeyError (IntKey ord))"
    by (simp add: assemble_connectivity_prefix [of inp pre "[a, b, ord] # post" tk em1 conformer])
  with h show "mol_from_json env inp = Inl (KeyError (IntKey ord))"
    by (simp add: mol_from_json_def)
next
  fix conn a b ord
  assume h: "connectivity inp = Some conn \<and> [a, b, ord] \<in> set conn \<and>
      ord \<noteq> 1 \<and> ord \<noteq> 2 \<and> ord \<noteq> 3"
  show "\<exists>e. mol_from_json env inp = Inl e"
  proof (cases "mol_from_json env inp")
    case (Inl e)
    then show ?thesis by blast
  next
    case (Inr m)
    then obtain tk where tk: "Chem env = Some tk"
      by (auto simp: mol_from_json_def split: option.splits)
    from mol_from_json_Inr [OF Inr tk] obtain em conformer
      where asm: "assemble tk inp = Inr (em, conformer)" by blast
    from assemble_keys [OF asm] obtain syms where syms: "symbols inp = Some syms" by blast
    from h have conn: "connectivity inp = Some conn" by simp
    from assemble_graph(6) [OF asm syms conn] h
    have "map_of BO_DISPATCH_TABLE (last [a, b, ord]) \<noteq> None" by blast
    with h show ?thesis by (simp add: map_of_BO)
  qed
qed

theorem mol_from_json_bond_orders_witness:
  "mol_from_json rdkit_only h2_json = Inr h2_mol \<and>
   connectivity h2_json = Some [[0, 1, 1]] \<and>
   length (bonds h2_mol) = 1 \<and> bonds h2_mol ! 0 = (0, 1, SINGLE) \<and>
   mol_from_json rdkit_only h2_json_bad_order = Inl (KeyError (IntKey 4))"
proof -
  let ?conf = "[(0, 0, 0), (0, 0, 1.4 * BOHR_2_ANGSTROM)] :: Conformer"
  have tk: "Chem rdkit_only = Some simple_Chem"
    by (simp add: rdkit_only_def)
  have conn: "connectivity h2_json = Some [[0, 1, 1]]"
    by (simp add: h2_json_def)
  have stereo: "\<forall>x cid y. AssignStereochemistryFrom3D simple_Chem x cid = Inr y
                  \<longrightarrow> bonds y = bonds x"
    by (simp add: simple_Chem_def)
  have keep: "\<forall>x y. SanitizeMol simple_Chem x = Some y \<longrightarrow> bonds y = bonds x"
    by (simp add: simple_Chem_def)
  note T = mol_from_json_bond_orders [where inp = h2_json and env = rdkit_only,
             THEN conjunct1, rule_format, of h2_mol simple_Chem "[[0, 1, 1]]"]
  from T mol_from_json_h2 tk conn stereo keep
  have len: "length (bonds h2_mol) = length [[0, 1, 1 :: int]]"
    and all: "\<forall>j a b ord. j < length [[0, 1, 1 :: int]] \<and> [[0, 1, 1]] ! j = [a, b, ord] \<longrightarrow>
           bonds h2_mol ! j
             = (a, b, if ord = 1 then SINGLE else if ord = 2 then DOUBLE else TRIPLE)"
    by blast+
  from all [rule_format, of 0 0 1 1] have first: "bonds h2_mol ! 0 = (0, 1, SINGLE)"
    by simp
  have asm: "assemble simple_Chem h2_json = Inr (h2_graph, ?conf)"
    by (simp add: assemble_h2 simple_Chem_def RWMol_new_def)
  have conn': "connectivity h2_json_bad_order = Some ([[0, 1, 1]] @ [0, 1, 4] # [])"
    by (simp add: h2_json_bad_order_def)
  have pre: "assemble simple_Chem (h2_json_bad_order\<lparr>connectivity := Some [[0, 1, 1]]\<rparr>)
               = Inr (h2_graph, ?conf)"
    using asm by (simp add: h2_json_bad_order_def h2_json_def)
  from mol_from_json_bond_orders [where inp = h2_json_bad_order and env = rdkit_only]
  have "\<forall>tk pre post a b ord em1 conformer.
      Chem rdkit_only = Some tk \<and>
      connectivity h2_json_bad_order = Some (pre @ [a, b, ord] # post) \<and>
      ord \<noteq> 1 \<and> ord \<noteq> 2 \<and> ord \<noteq> 3 \<and>
      assemble tk (h2_json_bad_order\<lparr>connectivity := Some pre\<rparr>) = Inr (em1, conformer) \<longrightarrow>
        mol_from_json rdkit_only h2_json_bad_order = Inl (KeyError (IntKey ord))"
    by blast
  from this [rule_format, of simple_Chem "[[0, 1, 1]]" 0 1 4 "[]" h2_graph ?conf] tk conn' pre
  have "mol_from_json rdkit_only h2_json_bad_order = Inl (KeyError (IntKey 4))"
    by simp
  with first len conn mol_from_json_h2 show ?thesis by simp
qed

section \<open>Dispatch of \<^verbatim>\<open>load_molecule\<close>\<close>

text \<open>
  C4. \<^verbatim>\<open>load_molecule\<close> dispatches on the type of its input and on the backend: a
  dictionary goes to \<^verbatim>\<open>mol_from_json\<close> whatever the backend is; any other input goes to
  \<^verbatim>\<open>_load_mol_rd\<close> for the backend \<^verbatim>\<open>rdkit\<close> and to \<^verbatim>\<open>_load_mol_oe\<close> for the backend
  \<^verbatim>\<open>openeye\<close>, with a RuntimeError when that toolkit is not installed, and to a
  RuntimeError for every other backend string.
\<close>

theorem load_molecule_dispatch:
  "load_molecule env (PyDict d) backend = map_sum id PyRDMol (mol_from_json env d) \<and>
   ((\<forall>d'. inp \<noteq> PyDict d') \<longrightarrow>
      load_molecule env inp ''rdkit'' =
        (if has_rdkit env then map_sum id rd_result (load_mol_rd env inp)
         else Inl (RuntimeError ''You need to have RDKit installed to use the RDKit backend'')) \<and>
      load_molecule env inp ''openeye'' =
        (if has_openeye env then map_sum id PyOEMol (load_mol_oe env inp)
         else Inl (RuntimeError
           ''You need to have OpenEye installed or an up-to-date license to use the openeye backend'')) \<and>
      (backend \<noteq> ''rdkit'' \<and> backend \<noteq> ''openeye'' \<longrightarrow>
         load_molecule env inp backend
           = Inl (RuntimeError ''You must have either RDKit or OpenEye installed'')))"
  by (cases inp) (simp_all add: load_molecule_def)

theorem load_molecule_dispatch_witness:
  "load_molecule rdkit_only (PyDict h2_json) ''openeye'' = Inr (PyRDMol h2_mol) \<and>
   load_molecule rdkit_only (PyStr ''C'') ''rdkit'' = Inr (PyRDMol methane) \<and>
   load_molecule rdkit_only (PyStr ''C'') ''openeye'' = Inl (RuntimeError
      ''You need to have OpenEye installed or an up-to-date license to use the openeye backend'') \<and>
   load_molecule rdkit_only (PyStr ''C'') ''obabel''
      = Inl (RuntimeError ''You must have either RDKit or OpenEye installed'')"
proof -
  have nd: "\<forall>d'. PyStr ''C'' \<noteq> PyDict d'"
    by simp
  have env: "has_rdkit rdkit_only" "\<not> has_openeye rdkit_only"
    by (simp_all add: has_rdkit_def has_openeye_def rdkit_only_def)
  have b: "''obabel'' \<noteq> ''rdkit'' \<and> ''obabel'' \<noteq> ''openeye''"
    by simp
  from load_molecule_dispatch [of rdkit_only h2_json "''openeye''" "PyStr ''C''"]
  have 1: "load_molecule rdkit_only (PyDict h2_json) ''openeye'' = Inr (PyRDMol h2_mol)"
    by (simp add: mol_from_json_h2)
  from load_molecule_dispatch [of rdkit_only h2_json "''obabel''" "PyStr ''C''"] nd env b
  show ?thesis
    by (simp add: 1 load_mol_rd_C rd_result_def)
qed

section \<open>\<^verbatim>\<open>generate_conformers\<close> and its argument\<close>

text \<open>
  C10. With \<^verbatim>\<open>copy=True\<close>, \<^verbatim>\<open>generate_conformers\<close> leaves every molecule of the
  store as it was, the input among them, also when it raises: Omega runs on a new
  object holding a copy of the input, and that object is what a successful call
  returns. With \<^verbatim>\<open>copy=False\<close> Omega runs on the input object itself, which a
  successful call returns.
\<close>

theorem generate_conformers_copy:
  assumes ref: "molecule < length h"
  shows
   "(case generate_conformers env h molecule max_confs strict_stereo ewindow rms_threshold
            strict_types True canon_order of
       (h', r) \<Rightarrow>
         (\<forall>a < length h. h' ! a = h ! a) \<and>
         (\<forall>ret. r = Inr ret \<longrightarrow>
            ret = length h \<and> length h' = length h + 1 \<and>
            (\<exists>oe. oechem env = Some oe \<and>
               h' ! ret = fst (omega_call oe
                 (configure_omega (OEOmega_new oe) max_confs strict_stereo ewindow
                    rms_threshold strict_types canon_order) (h ! molecule))))) \<and>
    (case generate_conformers env h molecule max_confs strict_stereo ewindow rms_threshold
            strict_types False canon_order of
       (h', r) \<Rightarrow>
         (\<forall>oe. oechem env = Some oe \<longrightarrow>
            h' = h[molecule := fst (omega_call oe
                 (configure_omega (OEOmega_new oe) max_confs strict_stereo ewindow
                    rms_threshold strict_types canon_order) (h ! molecule))]) \<and>
         (\<forall>ret. r = Inr ret \<longrightarrow> ret = molecule \<and> oechem env \<noteq> None))"
  using assms
  by (auto simp: generate_conformers_def OEMol_copy_def Let_def nth_append
      split: prod.splits if_splits option.splits)

theorem generate_conformers_copy_witness:
  "generate_conformers both_toolkits [carbon_oe] 0 (Some 800) True 15 1 True True True
     = ([carbon_oe, carbon_oe\<lparr>oe_confs := [[(0, 0, 0)]]\<rparr>], Inr 1) \<and>
   generate_conformers both_toolkits [carbon_oe] 0 (Some 800) True 15 1 True False True
     = ([carbon_oe\<lparr>oe_confs := [[(0, 0, 0)]]\<rparr>], Inr 0)"
proof -
  have ref: "(0::nat) < length [carbon_oe]"
    by simp
  from generate_conformers_copy [OF ref, of both_toolkits "Some 800" True 15 1 True True]
  show ?thesis
    by (simp add: generate_conformers_def OEMol_copy_def both_toolkits_def
        simple_oechem_def Let_def)
qed

section \<open>The length of the geometry\<close>




section \<open>Dispatch of \<^verbatim>\<open>_load_mol_rd\<close> on the extension\<close>

text \<open>
  C6, as stated: for a filename ending in \<^verbatim>\<open>.gz\<close>, \<^verbatim>\<open>_get_extension\<close> returns the
  extension before it followed by \<^verbatim>\<open>.gz\<close>. The file named \<^verbatim>\<open>.gz\<close> refutes it:
  \<^verbatim>\<open>os.path.splitext\<close> takes the dots that start the last component of a path as part of
  the name, so this file has no extension and the result is the empty string.
\<close>

theorem get_extension_hidden_gz_counterexample:
  "get_extension ''.gz'' = []"
proof -
  have "dir_prefix []" "dots_only ''.''" "ext_part ''gz''"
    by (simp_all add: dir_prefix_def dots_only_def ext_part_def)
  from get_extension_hidden [OF this] show ?thesis by simp
qed

text \<open>
  C6, amended. With RDKit imported, \<^verbatim>\<open>_load_mol_rd\<close> on a string dispatches on
  \<^verbatim>\<open>_get_extension\<close>: with an empty extension the string is parsed as SMILES, and a
  failed parse raises Warning; the extensions \<^verbatim>\<open>.pdb\<close>, \<^verbatim>\<open>.mol2\<close> and \<^verbatim>\<open>.tpl\<close> go to
  the PDB, Mol2 and TPL file parsers, whose result is returned (a KeyError of the parser
  is raised again with the module's message); every other extension raises KeyError.
  \<^verbatim>\<open>_get_extension\<close>, on POSIX paths, splits the last component of the path into the
  dots it starts with and the rest. A rest without a dot has no extension and the result
  is empty, as for \<^verbatim>\<open>mol\<close>, \<^verbatim>\<open>.pdb\<close> and \<^verbatim>\<open>.gz\<close>. Otherwise the result is the final
  extension, from the last dot on, unless that is \<^verbatim>\<open>.gz\<close>; then it is the extension of
  the name before \<^verbatim>\<open>.gz\<close>, found the same way, followed by \<^verbatim>\<open>.gz\<close>: \<^verbatim>\<open>.pdb.gz\<close> for
  \<^verbatim>\<open>mol.pdb.gz\<close>, and just \<^verbatim>\<open>.gz\<close> for \<^verbatim>\<open>mol.gz\<close> and for \<^verbatim>\<open>.pdb.gz\<close>.
\<close>

theorem load_mol_rd_string_dispatch:
  "(\<forall>tk. Chem env = Some tk \<longrightarrow>
      load_mol_rd env (PyStr s) =
        (let ext = get_extension s in
         if ext = [] then
           (case MolFromSmiles tk s of
              None \<Rightarrow> Inl (Warning ''Could not parse molecule'')
            | Some molecule \<Rightarrow> Inr (Some molecule))
         else if ext = ''.pdb'' \<or> ext = ''.mol2'' \<or> ext = ''.tpl'' then
           (case (if ext = ''.pdb'' then MolFromPDBFile tk
                  else if ext = ''.mol2'' then MolFromMol2File tk
                  else MolFromTPLFile tk) s of
              Inl (KeyError k) \<Rightarrow> Inl (KeyError (StrKey (''Could not parse '' @ ext)))
            | Inl e \<Rightarrow> Inl e
            | Inr molecule \<Rightarrow> Inr molecule)
         else Inl (KeyError (StrKey (''Could not parse '' @ ext))))) \<and>
   (\<forall>d dots n x.
      (dir_prefix d \<and> dots_only dots \<and> ext_part n \<longrightarrow> get_extension (d @ dots @ n) = []) \<and>
      (dir_prefix d \<and> name_part n \<and> ext_part x \<and> x \<noteq> ''gz'' \<longrightarrow>
         get_extension (d @ n @ CHR ''.'' # x) = CHR ''.'' # x) \<and>
      (dir_prefix d \<and> name_part n \<and> ext_part x \<longrightarrow>
         get_extension (d @ n @ CHR ''.'' # x @ ''.gz'') = CHR ''.'' # x @ ''.gz'') \<and>
      (dir_prefix d \<and> dots_only dots \<and> ext_part n \<and> n \<noteq> [] \<longrightarrow>
         get_extension (d @ dots @ n @ ''.gz'') = ''.gz''))"
proof (intro conjI allI impI)
  fix tk
  assume tk: "Chem env = Some tk"
  show "load_mol_rd env (PyStr s) =
        (let ext = get_extension s in
         if ext = [] then
           (case MolFromSmiles tk s of
              None \<Rightarrow> Inl (Warning ''Could not parse molecule'')
            | Some molecule \<Rightarrow> Inr (Some molecule))
         else if ext = ''.pdb'' \<or> ext = ''.mol2'' \<or> ext = ''.tpl'' then
           (case (if ext = ''.pdb'' then MolFromPDBFile tk
                  else if ext = ''.mol2'' then MolFromMol2File tk
                  else MolFromTPLFile tk) s of
              Inl (KeyError k) \<Rightarrow> Inl (KeyError (StrKey (''Could not parse '' @ ext)))
            | Inl e \<Rightarrow> Inl e
            | Inr molecule \<Rightarrow> Inr molecule)
         else Inl (KeyError (StrKey (''Could not parse '' @ ext))))"
    using tk
    by (auto simp: load_mol_rd_def Let_def EXT_DISPATCH_TABLE_def load_mol_rd_tail_str
        split: sum.splits py_error.splits)
qed (simp_all add: get_extension_hidden get_extension_final get_extension_double
       get_extension_hidden_gz)

theorem load_mol_rd_string_dispatch_witness:
  "load_mol_rd rdkit_only (PyStr ''C'') = Inr (Some methane) \<and>
   load_mol_rd rdkit_only (PyStr ''mol.pdb'') = Inr None \<and>
   load_mol_rd rdkit_only (PyStr ''mol.tpl'') = Inl (KeyError (StrKey ''Could not parse .tpl'')) \<and>
   load_mol_rd rdkit_only (PyStr ''mol.pdb.gz'')
     = Inl (KeyError (StrKey ''Could not parse .pdb.gz'')) \<and>
   get_extension ''mol.pdb.gz'' = ''.pdb.gz'' \<and> get_extension ''mol.gz'' = ''.gz'' \<and>
   get_extension ''mol'' = [] \<and> get_extension ''.pdb'' = [] \<and>
   get_extension ''.pdb.gz'' = ''.gz'' \<and> get_extension ''a.b/..gz'' = []"
proof -
  have tk: "Chem rdkit_only = Some simple_Chem"
    by (simp add: rdkit_only_def)
  have parts: "dir_prefix []" "dir_prefix ''a.b/''" "name_part ''mol''" "ext_part ''mol''"
    "ext_part ''pdb''" "ext_part ''tpl''" "ext_part ''C''" "ext_part ''gz''"
    "dots_only []" "dots_only ''.''" "dots_only ''..''"
    by (simp_all add: dir_prefix_def name_part_def ext_part_def dots_only_def)
  note G = load_mol_rd_string_dispatch [of rdkit_only "''C''", THEN conjunct2, rule_format]
  from G [of "[]" "[]" "''mol''" "''pdb''"] parts
  have pdb: "get_extension ''mol'' = []" "get_extension ''mol.pdb'' = ''.pdb''"
    "get_extension ''mol.pdb.gz'' = ''.pdb.gz''" "get_extension ''mol.gz'' = ''.gz''"
    by simp_all
  from G [of "[]" "[]" "''mol''" "''tpl''"] parts
  have tpl: "get_extension ''mol.tpl'' = ''.tpl''"
    by simp
  from G [of "[]" "[]" "''C''" "''pdb''"] parts
  have smi: "get_extension ''C'' = []"
    by simp
  from G [of "[]" "''.''" "''pdb''" "''pdb''"] parts
  have hid: "get_extension ''.pdb'' = []" "get_extension ''.pdb.gz'' = ''.gz''"
    by simp_all
  from G [of "''a.b/''" "''..''" "''gz''" "''pdb''"] parts
  have dir: "get_extension ''a.b/..gz'' = []"
    by simp
  note D = load_mol_rd_string_dispatch [THEN conjunct1, rule_format, OF tk]
  from D [of "''C''"] smi
  have 1: "load_mol_rd rdkit_only (PyStr ''C'') = Inr (Some methane)"
    by (simp add: simple_Chem_def methane_def)
  from D [of "''mol.pdb''"] pdb
  have 2: "load_mol_rd rdkit_only (PyStr ''mol.pdb'') = Inr None"
    by (simp add: simple_Chem_def)
  from D [of "''mol.tpl''"] tpl
  have 3: "load_mol_rd rdkit_only (PyStr ''mol.tpl'')
             = Inl (KeyError (StrKey ''Could not parse .tpl''))"
    by (simp add: simple_Chem_def)
  from D [of "''mol.pdb.gz''"] pdb
  have 4: "load_mol_rd rdkit_only (PyStr ''mol.pdb.gz'')
             = Inl (KeyError (StrKey ''Could not parse .pdb.gz''))"
    by simp
  from 1 2 3 4 pdb hid dir show ?thesis by simp
qed

section \<open>Atom maps and the imported toolkits\<close>

text \<open>With both toolkits imported, \<^verbatim>\<open>is_mapped\<close> says whether no atom has the map index
  0, \<^verbatim>\<open>remove_map\<close> sets every map index to 0, and \<^verbatim>\<open>is_mapped\<close> is then false on a
  molecule that has an atom.\<close>

lemma is_mapped_loop_rdkit:
  "is_mapped_loop (Some ''rdkit'') (map RDAtom ats) b
     = Inr (b \<and> (\<forall>a \<in> set ats. atom_map_num a \<noteq> 0))"
  by (induction ats arbitrary: b) (auto simp: GetAtomMapNum_def)

lemma is_mapped_loop_openeye:
  "is_mapped_loop (Some ''openeye'') (map OEAtom ats) b
     = Inr (b \<and> (\<forall>a \<in> set ats. map_idx a \<noteq> 0))"
  by (induction ats arbitrary: b) (auto simp: GetMapIdx_def)

lemma remove_map_loop_rdkit:
  "remove_map_loop (Some ''rdkit'') (map RDAtom ats)
     = Inr (map (\<lambda>a. RDAtom (a\<lparr>atom_map_num := 0\<rparr>)) ats)"
  by (induction ats) (auto simp: SetAtomMapNum_def)

lemma remove_map_loop_openeye:
  "remove_map_loop (Some ''openeye'') (map OEAtom ats)
     = Inr (map (\<lambda>a. OEAtom (a\<lparr>map_idx := 0\<rparr>)) ats)"
  by (induction ats) (auto simp: SetMapIdx_def)

lemma concat_RDAtom:
  "concat (map ((\<lambda>a. case a of RDAtom x \<Rightarrow> [x] | OEAtom x \<Rightarrow> []) \<circ> (\<lambda>a. RDAtom (f a))) ats)
     = map f ats"
  by (induction ats) auto

lemma concat_OEAtom:
  "concat (map ((\<lambda>a. case a of OEAtom x \<Rightarrow> [x] | RDAtom x \<Rightarrow> []) \<circ> (\<lambda>a. OEAtom (f a))) ats)
     = map f ats"
  by (induction ats) auto

lemma is_mapped_both_toolkits:
  assumes "Chem env = Some tk" and "oechem env = Some oe"
  shows "is_mapped env (PyRDMol m) = Inr (\<forall>a \<in> set (atoms m). atom_map_num a \<noteq> 0)"
    and "is_mapped env (PyOEMol om) = Inr (\<forall>a \<in> set (oe_atoms om). map_idx a \<noteq> 0)"
  using assms
  by (simp_all add: is_mapped_def backend_of_def GetAtoms_def is_mapped_loop_rdkit
      is_mapped_loop_openeye)

lemma remove_map_both_toolkits:
  assumes "Chem env = Some tk" and "oechem env = Some oe"
  shows "remove_map env (PyRDMol m)
           = Inr (PyRDMol (m\<lparr>atoms := map (\<lambda>a. a\<lparr>atom_map_num := 0\<rparr>) (atoms m)\<rparr>))"
    and "remove_map env (PyOEMol om)
           = Inr (PyOEMol (om\<lparr>oe_atoms := map (\<lambda>a. a\<lparr>map_idx := 0\<rparr>) (oe_atoms om)\<rparr>))"
  using assms
  by (simp_all add: remove_map_def backend_of_def GetAtoms_def remove_map_loop_rdkit
      remove_map_loop_openeye with_atoms_def concat_RDAtom concat_OEAtom)

lemma is_mapped_after_remove_map:
  assumes "Chem env = Some tk" and "oechem env = Some oe"
    and "remove_map env (PyRDMol m) = Inr molecule'" and "atoms m \<noteq> []"
  shows "is_mapped env molecule' = Inr False"
proof -
  from remove_map_both_toolkits(1) [OF assms(1,2), of m] assms(3)
  have m': "molecule' = PyRDMol (m\<lparr>atoms := map (\<lambda>a. a\<lparr>atom_map_num := 0\<rparr>) (atoms m)\<rparr>)"
    by simp
  from assms(4) show ?thesis
    by (simp add: m' is_mapped_both_toolkits(1) [OF assms(1,2)])
qed

lemma is_mapped_after_remove_map_openeye:
  assumes "Chem env = Some tk" and "oechem env = Some oe"
    and "remove_map env (PyOEMol om) = Inr molecule'" and "oe_atoms om \<noteq> []"
  shows "is_mapped env molecule' = Inr False"
proof -
  from remove_map_both_toolkits(2) [OF assms(1,2), of om] assms(3)
  have m': "molecule' = PyOEMol (om\<lparr>oe_atoms := map (\<lambda>a. a\<lparr>map_idx := 0\<rparr>) (oe_atoms om)\<rparr>)"
    by simp
  from assms(4) show ?thesis
    by (simp add: m' is_mapped_both_toolkits(2) [OF assms(1,2)])
qed

text \<open>
  C7. After \<^verbatim>\<open>remove_map(m)\<close> every atom of an RDKit or OpenEye molecule \<open>m\<close> should have
  the map index 0 and \<^verbatim>\<open>is_mapped(m)\<close> should be false. The code does so only when both
  toolkits were imported: its \<^verbatim>\<open>isinstance\<close> tests read \<^verbatim>\<open>Chem\<close> and \<^verbatim>\<open>oechem\<close>
  unguarded, so with one toolkit missing the call raises NameError before it touches an
  atom.
\<close>

theorem remove_map_needs_both_toolkits:
  "remove_map rdkit_only (PyRDMol methane) = Inl (NameError ''oechem'') \<and>
   remove_map openeye_only (PyOEMol carbon_oe) = Inl (NameError ''Chem'')"
  by (simp add: remove_map_def backend_of_def rdkit_only_def openeye_only_def)

text \<open>
  C8. \<^verbatim>\<open>is_mapped\<close> should return whether no atom of the molecule has the map index 0.
  For the same reason as in C7 it raises NameError when one of the toolkits is missing,
  whatever the molecule holds.
\<close>

theorem is_mapped_needs_both_toolkits:
  "is_mapped rdkit_only (PyRDMol methane) = Inl (NameError ''oechem'') \<and>
   is_mapped openeye_only (PyOEMol carbon_oe) = Inl (NameError ''Chem'')"
  by (simp add: is_mapped_def backend_of_def rdkit_only_def openeye_only_def)

end
